theory Spec2Isabelle
  imports Complex_Main "HOL-Library.Word"
begin

section \<open>The unit test of the Kepler propagator\<close>

text \<open>
  The repository file \<^verbatim>\<open>Astrodynamics/Propagators/unitTestKeplerPropagator.cpp\<close> holds one
  function, \<^verbatim>\<open>testKeplerPropagator\<close>. It loads a benchmark table from a text file into a
  \<^verbatim>\<open>std::map<double, CartesianElements>\<close>, runs the series propagator, and compares the two
  histories. The classes it calls (the series propagator, the Kepler propagator, the
  Newton-Raphson solver, the unit conversions, the state classes) live in other files; here
  they are parameters of the model, collected in the record \<open>externals\<close>.

  A \<^verbatim>\<open>double\<close> is modelled by a real number. Every key the function computes is an
  \<^verbatim>\<open>unsigned int\<close> times \<open>3600.0\<close>, which is below \<open>2^53\<close> and therefore exact in double
  arithmetic as well.
\<close>

subsection \<open>Input file streams\<close>

text \<open>
  The text of a file is given by its lexical fields, as \<^verbatim>\<open>operator>>(double&)\<close> meets them:
  \<open>Space\<close> is a maximal run of whitespace, \<open>Number d\<close> a maximal field that converts to the
  value \<open>d\<close>, \<open>Junk consumed stored\<close> a field that does not convert. Of such a field the
  conversion either reads the characters (\<open>consumed\<close>: a text that starts like a number, such
  as a lone sign or a number out of range) or stops before the first one (a letter);
  \<open>stored\<close> is what the library stores on the failure, if it stores anything (a zero or
  the largest double by the rule of C++11, nothing by the rule before).
\<close>

datatype item = Space | Number real | Junk bool "real option"

record ifstream =
  pending :: "item list"
  eofbit :: bool
  failbit :: bool

text \<open>
  Constructing a \<^verbatim>\<open>std::ifstream\<close> on a path: a file that cannot be opened leaves the stream
  with \<^verbatim>\<open>failbit\<close> set and \<^verbatim>\<open>eofbit\<close> clear.
\<close>

definition ifstream_open :: "(string \<rightharpoonup> item list) \<Rightarrow> string \<Rightarrow> ifstream" where
  "ifstream_open fs path =
     (case fs path of
        None \<Rightarrow> \<lparr>pending = [], eofbit = False, failbit = True\<rparr>
      | Some its \<Rightarrow> \<lparr>pending = its, eofbit = False, failbit = False\<rparr>)"

fun skipws :: "item list \<Rightarrow> item list" where
  "skipws (Space # its) = skipws its"
| "skipws its = its"

text \<open>
  \<^verbatim>\<open>stream >> x\<close> for a double \<open>x\<close>. The sentry refuses a stream that is not good and sets
  \<^verbatim>\<open>failbit\<close>. Otherwise whitespace is skipped; reaching the end of the file there sets
  \<^verbatim>\<open>eofbit\<close> and \<^verbatim>\<open>failbit\<close>. A number is consumed, and \<^verbatim>\<open>eofbit\<close> is set when the file ends
  right behind it, because the conversion reads until a character that is not part of the
  number. A field that does not convert sets \<^verbatim>\<open>failbit\<close>; when the conversion has read it
  and the file ends right behind it, \<^verbatim>\<open>eofbit\<close> is set as well. The result is the stream
  and the value stored into \<open>x\<close>, if one is stored.
\<close>

definition extract_double :: "ifstream \<Rightarrow> ifstream \<times> real option" where
  "extract_double s =
     (if failbit s \<or> eofbit s then (s\<lparr>failbit := True\<rparr>, None)
      else case skipws (pending s) of
             [] \<Rightarrow> (s\<lparr>pending := [], eofbit := True, failbit := True\<rparr>, None)
           | it # its \<Rightarrow>
               (case it of
                  Number d \<Rightarrow> (s\<lparr>pending := its, eofbit := (its = [])\<rparr>, Some d)
                | Junk consumed stored \<Rightarrow>
                    (if consumed
                     then s\<lparr>pending := its, eofbit := (its = []), failbit := True\<rparr>
                     else s\<lparr>pending := it # its, failbit := True\<rparr>,
                     stored)
                | Space \<Rightarrow> (s\<lparr>pending := it # its, failbit := True\<rparr>, None)))"

subsection \<open>Histories\<close>

text \<open>
  The member \<^verbatim>\<open>state\<close> of a \<^verbatim>\<open>State\<close> or \<^verbatim>\<open>CartesianElements\<close> is a vector of doubles; a
  history is a \<^verbatim>\<open>std::map\<close> from time to such an object. Reading or writing \<^verbatim>\<open>state( i )\<close>
  behind the end of the vector has no defined result: the model stops with a fault.
\<close>

datatype fault = IndexOutOfRange

type_synonym vector = "real list"

type_synonym history = "real \<rightharpoonup> vector"

text \<open>
  \<^verbatim>\<open>std::map::operator[]\<close>: a missing key is inserted with a default-constructed object. The
  result is the map afterwards and the object at the key.
\<close>

definition map_subscript :: "vector \<Rightarrow> history \<Rightarrow> real \<Rightarrow> history \<times> vector" where
  "map_subscript dflt m k =
     (case m k of None \<Rightarrow> (m(k \<mapsto> dflt), dflt) | Some v \<Rightarrow> (m, v))"

text \<open>A \<^verbatim>\<open>for\<close> loop over the given indices, stopping at a fault.\<close>

primrec for_each :: "nat list \<Rightarrow> (nat \<Rightarrow> 'a \<Rightarrow> fault + 'a) \<Rightarrow> 'a \<Rightarrow> fault + 'a" where
  "for_each [] body x = Inr x"
| "for_each (i # js) body x =
     (case body i x of Inl f \<Rightarrow> Inl f | Inr y \<Rightarrow> for_each js body y)"

subsection \<open>Loading the benchmark data\<close>

text \<open>
  The body of the inner loop,
  \<^verbatim>\<open>file >> benchmarkKeplerPropagationHistory[ counter * 3600.0 ].state( i )\<close>.
  The operand is evaluated first, so the key is inserted whatever the state of the stream;
  the component is overwritten only when the extraction delivers a value.
\<close>

definition storeStateData ::
  "vector \<Rightarrow> real \<Rightarrow> nat \<Rightarrow> ifstream \<times> history \<Rightarrow> fault + ifstream \<times> history" where
  "storeStateData dflt key i sm =
     (case map_subscript dflt (snd sm) key of
        (m, v) \<Rightarrow>
          if length v \<le> i then Inl IndexOutOfRange
          else (case extract_double (fst sm) of
                  (s, None) \<Rightarrow> Inr (s, m)
                | (s, Some d) \<Rightarrow> Inr (s, m(key \<mapsto> v[i := d]))))"

text \<open>
  The loop \<^verbatim>\<open>while ( !file.eof( ) )\<close>. The elapsed time of the first column is extracted
  and not used; the key is the 32-bit counter times \<open>3600.0\<close>. \<open>None\<close> is a loop that
  does not end.
\<close>

partial_function (option) populateBenchmarkHistory ::
  "vector \<Rightarrow> ifstream \<Rightarrow> 32 word \<Rightarrow> history \<Rightarrow> (fault + history) option" where
  "populateBenchmarkHistory dflt s twoBodyKeplerDataCounter m =
     (if eofbit s then Some (Inr m)
      else case for_each [0..<6]
                  (storeStateData dflt (real (unat twoBodyKeplerDataCounter) * 3600))
                  (fst (extract_double s), m) of
             Inl f \<Rightarrow> Some (Inl f)
           | Inr sm \<Rightarrow> populateBenchmarkHistory dflt (fst sm) (twoBodyKeplerDataCounter + 1) (snd sm))"

subsection \<open>Comparing the two histories\<close>

record check_state =
  simulation :: history
  benchmark :: history
  isKeplerPropagatorErroneous :: bool
  cerr :: "string list"

text \<open>
  The inner loop of the comparison declares its own \<open>i\<close>, which hides the sample index of
  the outer loop: both the key \<open>i * interval\<close> and the component \<open>state( i )\<close> are taken at
  the inner index. \<^verbatim>\<open>operator[]\<close> inserts missing keys in both maps.
\<close>

definition addDifference ::
  "vector \<Rightarrow> vector \<Rightarrow> real \<Rightarrow> nat \<Rightarrow> real \<times> history \<times> history \<Rightarrow>
     fault + real \<times> history \<times> history" where
  "addDifference dfltState dfltElements interval i acc =
     (case acc of
        (differenceKeplerData, sim, bench) \<Rightarrow>
          (case map_subscript dfltState sim (real i * interval) of
             (sim', a) \<Rightarrow>
               (case map_subscript dfltElements bench (real i * interval) of
                  (bench', b) \<Rightarrow>
                    if length a \<le> i \<or> length b \<le> i then Inl IndexOutOfRange
                    else Inr (differenceKeplerData + \<bar>a ! i - b ! i\<bar>, sim', bench'))))"

definition inconsistentMessage :: string where
  "inconsistentMessage =
     ''The Kepler propagator does not produce consistent results, as running a simulation with does not yield the same results as the benchmark data given the same initial condition.''"

definition noteDifference :: "real \<Rightarrow> real \<times> history \<times> history \<Rightarrow> check_state \<Rightarrow> check_state" where
  "noteDifference tolerance r st =
     (if fst r > tolerance
      then st\<lparr>simulation := fst (snd r), benchmark := snd (snd r),
              isKeplerPropagatorErroneous := True, cerr := cerr st @ [inconsistentMessage]\<rparr>
      else st\<lparr>simulation := fst (snd r), benchmark := snd (snd r)\<rparr>)"

text \<open>
  The outer loop \<^verbatim>\<open>for ( unsigned int i = 0; i < start / interval; i++ )\<close>: the counter is
  converted to double for the comparison, and wraps at \<open>2^32\<close>. The quotient is the
  mathematical one, which is what the double division gives for the interval \<open>3600.0\<close> of
  the test (HOL's \<open>x / 0\<close> is \<open>0\<close>, IEEE's is not).
\<close>

partial_function (option) checkResults ::
  "vector \<Rightarrow> vector \<Rightarrow> real \<Rightarrow> real \<Rightarrow> real \<Rightarrow> 32 word \<Rightarrow> check_state \<Rightarrow>
     (fault + check_state) option" where
  "checkResults dfltState dfltElements tolerance start interval i st =
     (if real (unat i) < start / interval
      then case for_each [0..<6] (addDifference dfltState dfltElements interval)
                  (0, simulation st, benchmark st) of
             Inl f \<Rightarrow> Some (Inl f)
           | Inr r \<Rightarrow> checkResults dfltState dfltElements tolerance start interval (i + 1)
                        (noteDifference tolerance r st)
      else Some (Inr st))"

subsection \<open>The test function\<close>

text \<open>
  What the test takes from other files: the root path, the default-constructed
  \<^verbatim>\<open>CartesianElements\<close> and \<^verbatim>\<open>State\<close> vectors, the two unit conversions, and the history
  that the series propagator returns for a start time, an end time, an output interval and
  an initial state (with the Kepler propagator, the predefined Earth and the
  Newton-Raphson object the test binds to it).
\<close>

record externals =
  ROOT_PATH :: string
  defaultCartesianElements :: vector
  defaultState :: vector
  convertKilometersToMeters :: "vector \<Rightarrow> vector"
  convertMetersToKilometers :: "vector \<Rightarrow> vector"
  seriesPropagationHistory :: "real \<Rightarrow> real \<Rightarrow> real \<Rightarrow> vector \<Rightarrow> history"

definition relativePathToBenchmarkData :: string where
  "relativePathToBenchmarkData = ''Astrodynamics/Propagators/twoBodyKeplerData.dat''"

definition absolutePathToBenchmarkData :: "externals \<Rightarrow> string" where
  "absolutePathToBenchmarkData ext = ROOT_PATH ext @ relativePathToBenchmarkData"

definition couldNotBeOpened :: string where
  "couldNotBeOpened = ''Error: Two-body Kepler benchmark data file could not be opened.''"

definition reportUnopened :: "ifstream \<Rightarrow> string \<Rightarrow> string list" where
  "reportUnopened file path = (if failbit file then [couldNotBeOpened, path] else [])"

text \<open>
  The result is \<open>None\<close> when the function does not return, a fault when it reads behind a
  vector, and otherwise the returned flag (\<open>True\<close>: the propagator is erroneous) together
  with the lines written to \<^verbatim>\<open>cerr\<close>. The six setters of \<^verbatim>\<open>stateOfAsterix\<close> give the
  state vector written out below; the getters of the series propagator return what its
  setters stored, the start time \<open>0.0\<close> and the output interval \<open>3600.0\<close>.
\<close>

definition testKeplerPropagator ::
  "externals \<Rightarrow> (string \<rightharpoonup> item list) \<Rightarrow> (fault + bool \<times> string list) option" where
  "testKeplerPropagator ext fs =
     (let twoBodyKeplerBenchmarkFile = ifstream_open fs (absolutePathToBenchmarkData ext);
          messages = reportUnopened twoBodyKeplerBenchmarkFile (absolutePathToBenchmarkData ext)
      in case populateBenchmarkHistory (defaultCartesianElements ext)
                twoBodyKeplerBenchmarkFile 0 Map.empty of
           None \<Rightarrow> None
         | Some (Inl f) \<Rightarrow> Some (Inl f)
         | Some (Inr benchmarkKeplerPropagationHistory) \<Rightarrow>
             (let stateOfAsterix =
                    convertKilometersToMeters ext [6750, 0, 0, 0, 80595973215 / 10 ^ 10, 0];
                  propagated = seriesPropagationHistory ext 0 86400 3600 stateOfAsterix;
                  asterixKeplerPropagationHistory =
                    (\<lambda>t. map_option (convertMetersToKilometers ext) (propagated t))
              in case checkResults (defaultState ext) (defaultCartesianElements ext)
                        (1 / 10 ^ 6) 0 3600 0
                        \<lparr>simulation = asterixKeplerPropagationHistory,
                         benchmark = benchmarkKeplerPropagationHistory,
                         isKeplerPropagatorErroneous = False,
                         cerr = messages\<rparr> of
                   None \<Rightarrow> None
                 | Some (Inl f) \<Rightarrow> Some (Inl f)
                 | Some (Inr st) \<Rightarrow> Some (Inr (isKeplerPropagatorErroneous st, cerr st))))"

section \<open>Benchmark tables\<close>

text \<open>
  The format of the reference file: one row per sample, the elapsed time followed by the
  six state components, the fields separated by whitespace. A row is the pair of its first
  column and the list of the other six; \<open>trailing\<close> says whether whitespace (the final
  newline) follows the last number.
\<close>

definition row_items :: "real \<times> vector \<Rightarrow> item list" where
  "row_items r = Number (fst r) # concat (map (\<lambda>x. [Space, Number x]) (snd r))"

definition following :: "(real \<times> vector) list \<Rightarrow> bool \<Rightarrow> item list" where
  "following rs trailing =
     concat (map (\<lambda>r. Space # row_items r) rs) @ (if trailing then [Space] else [])"

definition benchmark_table :: "(real \<times> vector) list \<Rightarrow> bool \<Rightarrow> item list" where
  "benchmark_table rows trailing =
     (case rows of [] \<Rightarrow> following [] trailing | r # rs \<Rightarrow> row_items r @ following rs trailing)"

definition well_formed :: "(real \<times> vector) list \<Rightarrow> bool" where
  "well_formed rows = list_all (\<lambda>r. length (snd r) = 6) rows"

text \<open>The stream as opened on a table, and as it is left behind a complete row.\<close>

definition opened :: "item list \<Rightarrow> ifstream" where
  "opened its = \<lparr>pending = its, eofbit = False, failbit = False\<rparr>"

definition after_row :: "item list \<Rightarrow> ifstream" where
  "after_row rest = \<lparr>pending = rest, eofbit = (rest = []), failbit = False\<rparr>"

text \<open>
  Stand-ins for the classes of the other files, for evaluating the test on concrete input:
  vectors of six zeros as default objects, the factor 1000 between kilometers and meters,
  and a series propagator whose history holds the initial state at the start time.
\<close>

definition stand_in :: externals where
  "stand_in =
     \<lparr>ROOT_PATH = ''/tudat/'',
      defaultCartesianElements = [0, 0, 0, 0, 0, 0],
      defaultState = [0, 0, 0, 0, 0, 0],
      convertKilometersToMeters = map (\<lambda>x. x * 1000),
      convertMetersToKilometers = map (\<lambda>x. x / 1000),
      seriesPropagationHistory = (\<lambda>start end interval initialState. [start \<mapsto> initialState])\<rparr>"

text \<open>
  The history that the loading loop builds from the rows still to be read, when the counter
  stands at \<open>n\<close>: one entry per row, and one more, default-constructed, when an iteration
  follows the last row.
\<close>

definition extra_iterations :: "bool \<Rightarrow> nat" where
  "extra_iterations trailing = (if trailing then 1 else 0)"

definition key_of :: "nat \<Rightarrow> real" where
  "key_of n = real n * 3600"

fun fill :: "vector \<Rightarrow> nat \<Rightarrow> (real \<times> vector) list \<Rightarrow> bool \<Rightarrow> history \<Rightarrow> history" where
  "fill dflt n [] trailing m = (if trailing then fst (map_subscript dflt m (key_of n)) else m)"
| "fill dflt n (r # rs) trailing m = fill dflt (Suc n) rs trailing (m(key_of n \<mapsto> snd r))"

section \<open>The propagation core, modelled from the specification\<close>

text \<open>
  The source file calls the series propagator, the Kepler propagator and the Newton-Raphson
  solver, whose own code is in other files of the repository. The claims about them are
  settled on the model below, which follows the specification.
\<close>

text \<open>
  Modelled from the spec: the error taxonomy of section 7. The classes that raise these errors (the series propagator, the Kepler propagator, the Newton-Raphson solver, the element conversions) are not among the source files.
\<close>

datatype error = InvalidConfigurationError | DegenerateOrbitError | ConvergenceError

text \<open>
  Modelled from the spec: the Keplerian elements of section 3, with the true anomaly as the stored anomaly. The class is not among the source files.
\<close>

record KeplerianElements =
  semiMajorAxis :: real
  eccentricity :: real
  inclination :: real
  rightAscensionOfAscendingNode :: real
  argumentOfPeriapsis :: real
  trueAnomaly :: real

text \<open>
  Modelled from the spec: the derived orbit type of section 3.
\<close>

datatype OrbitType = Circular | Elliptical | Parabolic | Hyperbolic

text \<open>
  Modelled from the spec: the classification of section 3 by eccentricity thresholds (\<open>e \<approx> 0\<close>, \<open>0 < e < 1\<close>, \<open>e \<approx> 1\<close>, \<open>e > 1\<close>), the two approximate comparisons within the given tolerance. The classifying code is not among the source files.
\<close>

definition classifyOrbit :: "real \<Rightarrow> real \<Rightarrow> OrbitType" where
  "classifyOrbit tol e =
     (if \<bar>e\<bar> \<le> tol then Circular
      else if \<bar>e - 1\<bar> \<le> tol then Parabolic
      else if e < 1 then Elliptical
      else Hyperbolic)"

text \<open>
  Modelled from the spec: the configuration surface of section 6: the Newton-Raphson tolerance, the maximum-iteration cap and the orbit-type classification tolerance.
\<close>

record settings =
  solverTolerance :: real
  maximumIterations :: nat
  classificationTolerance :: real

text \<open>
  Modelled from the spec: the relations that sections 4.1 to 4.3 name without giving their formulas (the two element conversions, the conversions between the anomalies, the mean motion of an open orbit, the principal range of the mean anomaly, the hyperbolic seed, the solution of Barker's equation). They are parameters; \<open>cartesianToKeplerian\<close> may fail with \<open>DegenerateOrbitError\<close>.
\<close>

record relations =
  cartesianToKeplerian :: "vector \<Rightarrow> real \<Rightarrow> error + KeplerianElements"
  keplerianToCartesian :: "KeplerianElements \<Rightarrow> real \<Rightarrow> vector"
  meanAnomalyFromTrue :: "OrbitType \<Rightarrow> real \<Rightarrow> real \<Rightarrow> real"
  trueAnomalyFromSolved :: "OrbitType \<Rightarrow> real \<Rightarrow> real \<Rightarrow> real"
  openOrbitMeanMotion :: "OrbitType \<Rightarrow> real \<Rightarrow> real \<Rightarrow> real"
  wrapToPrincipalRange :: "real \<Rightarrow> real"
  hyperbolicSeed :: "real \<Rightarrow> real \<Rightarrow> real"
  barkerSolution :: "real \<Rightarrow> real"

text \<open>
  Modelled from the spec: one Newton-Raphson step \<open>E\<^sub>n\<^sub>+\<^sub>1 = E\<^sub>n - f(E\<^sub>n) / f'(E\<^sub>n)\<close> of section 4.2. The solver class \<^verbatim>\<open>NewtonRaphson\<close> is not among the source files.
\<close>

definition newtonStep :: "(real \<Rightarrow> real) \<Rightarrow> (real \<Rightarrow> real) \<Rightarrow> real \<Rightarrow> real" where
  "newtonStep f f' x = x - f x / f' x"

text \<open>
  Modelled from the spec: the iteration of section 4.2, which stops when \<open>|f(E\<^sub>n)| < tolerance\<close> and fails with \<open>ConvergenceError\<close> when the cap on the number of steps is used up without that. The solver class \<^verbatim>\<open>NewtonRaphson\<close> is not among the source files.
\<close>

fun newtonRaphson ::
  "(real \<Rightarrow> real) \<Rightarrow> (real \<Rightarrow> real) \<Rightarrow> real \<Rightarrow> nat \<Rightarrow> real \<Rightarrow> error + real" where
  "newtonRaphson f f' tol 0 x = (if \<bar>f x\<bar> < tol then Inr x else Inl ConvergenceError)"
| "newtonRaphson f f' tol (Suc n) x =
     (if \<bar>f x\<bar> < tol then Inr x else newtonRaphson f f' tol n (newtonStep f f' x))"

text \<open>
  Modelled from the spec: the equations of section 4.2, \<open>M = E - e sin E\<close> for an elliptical and \<open>M = e sinh H - H\<close> for a hyperbolic orbit, as functions whose root is sought.
\<close>

definition keplerFunction :: "OrbitType \<Rightarrow> real \<Rightarrow> real \<Rightarrow> real \<Rightarrow> real" where
  "keplerFunction ty e M x =
     (case ty of Hyperbolic \<Rightarrow> e * sinh x - x - M | _ \<Rightarrow> x - e * sin x - M)"

text \<open>
  Modelled from the spec: the derivatives of the two functions of section 4.2.
\<close>

definition keplerDerivative :: "OrbitType \<Rightarrow> real \<Rightarrow> real \<Rightarrow> real" where
  "keplerDerivative ty e x =
     (case ty of Hyperbolic \<Rightarrow> e * cosh x - 1 | _ \<Rightarrow> 1 - e * cos x)"

text \<open>
  Modelled from the spec: the initial guess of section 4.2, \<open>E\<^sub>0 = M\<close> or the hyperbolic seed.
\<close>

definition initialGuess :: "relations \<Rightarrow> OrbitType \<Rightarrow> real \<Rightarrow> real \<Rightarrow> real" where
  "initialGuess rel ty e M = (case ty of Hyperbolic \<Rightarrow> hyperbolicSeed rel M e | _ \<Rightarrow> M)"

text \<open>
  Modelled from the spec: the Kepler-equation solver of section 4.2. An eccentricity of exactly \<open>0\<close> bypasses the iteration, a parabolic orbit has a closed form, the other orbits are iterated. The solver is not among the source files.
\<close>

definition solveKeplerEquation :: "settings \<Rightarrow> relations \<Rightarrow> real \<Rightarrow> real \<Rightarrow> error + real" where
  "solveKeplerEquation cfg rel M e =
     (let ty = classifyOrbit (classificationTolerance cfg) e
      in if e = 0 then Inr M
         else if ty = Parabolic then Inr (barkerSolution rel M)
         else newtonRaphson (keplerFunction ty e M) (keplerDerivative ty e)
                (solverTolerance cfg) (maximumIterations cfg) (initialGuess rel ty e M))"

text \<open>
  Modelled from the spec: the mean motion \<open>n = sqrt (mu / a\<^sup>3)\<close> of step 2 of section 4.3, or its analogue for an open orbit.
\<close>

definition meanMotion :: "relations \<Rightarrow> OrbitType \<Rightarrow> real \<Rightarrow> real \<Rightarrow> real" where
  "meanMotion rel ty mu a =
     (case ty of
        Circular \<Rightarrow> sqrt (mu / a ^ 3)
      | Elliptical \<Rightarrow> sqrt (mu / a ^ 3)
      | _ \<Rightarrow> openOrbitMeanMotion rel ty mu a)"

text \<open>
  Modelled from the spec: step 2 of section 4.3, \<open>M(t) = M(0) + n * elapsedTime\<close>, wrapped into the principal range for a closed orbit only.
\<close>

definition advanceMeanAnomaly ::
  "settings \<Rightarrow> relations \<Rightarrow> KeplerianElements \<Rightarrow> real \<Rightarrow> real \<Rightarrow> real" where
  "advanceMeanAnomaly cfg rel el mu elapsedTime =
     (let ty = classifyOrbit (classificationTolerance cfg) (eccentricity el);
          M = meanAnomalyFromTrue rel ty (eccentricity el) (trueAnomaly el)
                + meanMotion rel ty mu (semiMajorAxis el) * elapsedTime
      in case ty of
           Circular \<Rightarrow> wrapToPrincipalRange rel M
         | Elliptical \<Rightarrow> wrapToPrincipalRange rel M
         | _ \<Rightarrow> M)"

text \<open>
  Modelled from the spec: \<^verbatim>\<open>KeplerPropagator.propagate\<close> of section 4.3: convert to elements, advance the mean anomaly, solve Kepler's equation, recover the true anomaly with the other elements fixed, convert back. A failure of the conversion or of the solver is the result. The class \<^verbatim>\<open>KeplerPropagator\<close> is not among the source files.
\<close>

definition propagate ::
  "settings \<Rightarrow> relations \<Rightarrow> vector \<Rightarrow> real \<Rightarrow> real \<Rightarrow> error + vector" where
  "propagate cfg rel initialState mu elapsedTime =
     (case cartesianToKeplerian rel initialState mu of
        Inl err \<Rightarrow> Inl err
      | Inr el \<Rightarrow>
          (case solveKeplerEquation cfg rel (advanceMeanAnomaly cfg rel el mu elapsedTime)
                  (eccentricity el) of
             Inl err \<Rightarrow> Inl err
           | Inr x \<Rightarrow>
               Inr (keplerianToCartesian rel
                      (el\<lparr>trueAnomaly :=
                            trueAnomalyFromSolved rel
                              (classifyOrbit (classificationTolerance cfg) (eccentricity el))
                              (eccentricity el) x\<rparr>) mu)))"

text \<open>
  Modelled from the spec: what the series driver of section 4.4 accepts in its state \<open>Configured\<close>.
\<close>

record series =
  seriesPropagationStart :: real
  seriesPropagationEnd :: real
  fixedOutputInterval :: real
  initialState :: vector
  gravitationalParameter :: real

text \<open>
  Modelled from the spec: how a run ends in the state \<open>Failed\<close>: the error, the tick that triggered it (section 7; none for a rejected configuration), and the history accumulated so far (the policy section 4.4 recommends).
\<close>

record failure =
  cause :: error
  failedTick :: "real option"
  partialHistory :: history

text \<open>
  Modelled from the spec: the sample times \<open>start, start + interval, start + 2 * interval, \<dots>\<close> of section 4.4, each derived from its integer sample index (section 9).
\<close>

definition tick :: "series \<Rightarrow> nat \<Rightarrow> real" where
  "tick run k = seriesPropagationStart run + real k * fixedOutputInterval run"

text \<open>
  Modelled from the spec: the index of the last tick that is not after the end time (section 4.4).
\<close>

definition lastTick :: "series \<Rightarrow> nat" where
  "lastTick run =
     nat \<lfloor>(seriesPropagationEnd run - seriesPropagationStart run) / fixedOutputInterval run\<rfloor>"

text \<open>
  Modelled from the spec: the loop of \<^verbatim>\<open>execute\<close> in section 4.4 over the given sample indices: the bound propagator is applied to the initial state with the elapsed time \<open>tick - start\<close>, the result is inserted at the key \<open>tick\<close>, and the first failure aborts the run. \<^verbatim>\<open>SeriesPropagator::execute\<close> is not among the source files.
\<close>

primrec sampleTicks ::
  "(vector \<Rightarrow> real \<Rightarrow> real \<Rightarrow> error + vector) \<Rightarrow> series \<Rightarrow> nat list \<Rightarrow> history \<Rightarrow>
     failure + history" where
  "sampleTicks propagator run [] h = Inr h"
| "sampleTicks propagator run (k # ks) h =
     (case propagator (initialState run) (gravitationalParameter run)
             (tick run k - seriesPropagationStart run) of
        Inl err \<Rightarrow> Inl \<lparr>cause = err, failedTick = Some (tick run k), partialHistory = h\<rparr>
      | Inr s \<Rightarrow> sampleTicks propagator run ks (h(tick run k \<mapsto> s)))"

text \<open>
  Modelled from the spec: \<^verbatim>\<open>execute\<close> of the series driver (section 4.4). A configuration that breaks the invariant \<open>interval > 0\<close>, \<open>end > start\<close> is rejected with \<open>InvalidConfigurationError\<close>; otherwise all ticks are sampled. \<^verbatim>\<open>SeriesPropagator::execute\<close> is not among the source files.
\<close>

definition execute ::
  "(vector \<Rightarrow> real \<Rightarrow> real \<Rightarrow> error + vector) \<Rightarrow> series \<Rightarrow> failure + history" where
  "execute propagator run =
     (if 0 < fixedOutputInterval run \<and> seriesPropagationStart run < seriesPropagationEnd run
      then sampleTicks propagator run [0 ..< Suc (lastTick run)] Map.empty
      else Inl \<lparr>cause = InvalidConfigurationError, failedTick = None,
                partialHistory = Map.empty\<rparr>)"

text \<open>
  Concrete relations for evaluating the model: an orbit of eccentricity \<open>pi / 6\<close> that is
  at its periapsis at the initial epoch, where true and mean anomaly are both zero.
\<close>

definition stub_relations :: relations where
  "stub_relations =
     \<lparr>cartesianToKeplerian =
        (\<lambda>state mu. Inr \<lparr>semiMajorAxis = 1, eccentricity = pi / 6, inclination = 0,
                           rightAscensionOfAscendingNode = 0, argumentOfPeriapsis = 0,
                           trueAnomaly = 0\<rparr>),
      keplerianToCartesian = (\<lambda>el mu. [trueAnomaly el, 0, 0, 0, 0, 0]),
      meanAnomalyFromTrue = (\<lambda>ty e nu. nu),
      trueAnomalyFromSolved = (\<lambda>ty e x. x),
      openOrbitMeanMotion = (\<lambda>ty mu a. 0),
      wrapToPrincipalRange = (\<lambda>M. M),
      hyperbolicSeed = (\<lambda>M e. M),
      barkerSolution = (\<lambda>M. M)\<rparr>"

text \<open>
  Settings with the documented tolerance and a cap of one Newton-Raphson step.
\<close>

definition stub_settings :: settings where
  "stub_settings = \<lparr>solverTolerance = 1 / 10 ^ 12, maximumIterations = 1,
                     classificationTolerance = 1 / 10 ^ 9\<rparr>"

text \<open>
  A series of three ticks over half a period of that orbit (mean motion \<open>1\<close>): the mean
  anomaly is \<open>0\<close>, \<open>pi / 2\<close> and \<open>pi\<close> at the ticks.
\<close>

definition half_period_run :: series where
  "half_period_run = \<lparr>seriesPropagationStart = 0, seriesPropagationEnd = pi,
                       fixedOutputInterval = pi / 2, initialState = [1, 0, 0, 0, 1, 0],
                       gravitationalParameter = 1\<rparr>"

text \<open>
  A propagator that succeeds always, and for which two chained steps differ from one long step.
\<close>

definition growth :: "vector \<Rightarrow> real \<Rightarrow> real \<Rightarrow> error + vector" where
  "growth state mu elapsedTime = Inr (map (\<lambda>x. x * (1 + elapsedTime)) state)"

text \<open>
  A propagator that fails always.
\<close>

definition degenerate :: "vector \<Rightarrow> real \<Rightarrow> real \<Rightarrow> error + vector" where
  "degenerate state mu elapsedTime = Inl DegenerateOrbitError"

text \<open>
  A series of three ticks that does not start at time zero.
\<close>

definition short_run :: series where
  "short_run = \<lparr>seriesPropagationStart = 100, seriesPropagationEnd = 7300,
                 fixedOutputInterval = 3600, initialState = [1, 2, 3, 4, 5, 6],
                 gravitationalParameter = 398600441500000\<rparr>"

section \<open>The loading loop on a benchmark table\<close>

lemma upt6: "[0..<6] = [0, 1, 2, 3, 4, 5]"
  by (simp add: upt_rec)

lemma checkResults_zero_start:
  "checkResults dS dE tol 0 interval i st = Some (Inr st)"
proof -
  have "\<not> real (unat i) < 0 / interval"
    using of_nat_0_le_iff [of "unat i", where ?'a = real] by (simp only: not_less div_0)
  then show ?thesis
    by (subst checkResults.simps) (simp only: if_False)
qed

lemma extract_failed: "failbit s \<Longrightarrow> extract_double s = (s, None)"
  by (simp add: extract_double_def)

lemma store_failed:
  assumes "failbit s" "i < length (snd (map_subscript dflt m key))"
  shows "storeStateData dflt key i (s, m) = Inr (s, fst (map_subscript dflt m key))"
  using assms by (auto simp add: storeStateData_def extract_failed split: prod.splits)

lemma map_subscript_idem:
  "map_subscript dflt (fst (map_subscript dflt m key)) key = map_subscript dflt m key"
  by (simp add: map_subscript_def split: option.splits)

lemma for_each_failed:
  assumes "failbit s" "6 \<le> length (snd (map_subscript dflt m key))"
  shows "for_each [0..<6] (storeStateData dflt key) (s, m) = Inr (s, fst (map_subscript dflt m key))"
proof -
  have "\<And>i. i < 6 \<Longrightarrow> storeStateData dflt key i (s, fst (map_subscript dflt m key))
          = Inr (s, fst (map_subscript dflt m key))"
    using assms by (subst store_failed) (simp_all add: map_subscript_idem)
  moreover have "storeStateData dflt key 0 (s, m) = Inr (s, fst (map_subscript dflt m key))"
    using assms by (subst store_failed) auto
  ultimately show ?thesis
    by (simp add: upt6)
qed

lemma length6E:
  assumes "length (v::'a list) = 6"
  obtains a b c d e f where "v = [a, b, c, d, e, f]"
  using assms by (auto simp: length_Suc_conv eval_nat_numeral)

lemma row_step:
  assumes "\<not> failbit s" "\<not> eofbit s"
    and "skipws (pending s) = row_items (t, xs) @ rest"
    and "length xs = 6"
    and "length (snd (map_subscript dflt m key)) = 6"
  shows "for_each [0..<6] (storeStateData dflt key) (fst (extract_double s), m)
         = Inr (s\<lparr>pending := rest, eofbit := (rest = [])\<rparr>, m(key \<mapsto> xs))"
proof -
  obtain x0 x1 x2 x3 x4 x5 where xs: "xs = [x0, x1, x2, x3, x4, x5]"
    using assms(4) by (rule length6E)
  obtain a b c d e f where v: "snd (map_subscript dflt m key) = [a, b, c, d, e, f]"
    using assms(5) by (rule length6E)
  show ?thesis
    using assms(1-3) v unfolding xs upt6 row_items_def
    by (auto simp add: storeStateData_def extract_double_def map_subscript_def
        split: option.splits prod.splits)
qed

lemma key_of_inj: "key_of i = key_of j \<longleftrightarrow> i = j"
  by (simp add: key_of_def)

lemma counter_key:
  "n < 2 ^ 32 \<Longrightarrow> real (unat (of_nat n :: 32 word)) * 3600 = key_of n"
  by (simp add: key_of_def unat_of_nat take_bit_nat_eq_self)

lemma counter_key_unsigned:
  "n < 2 ^ 32 \<Longrightarrow> (unsigned (of_nat n :: 32 word) :: real) * 3600 = key_of n"
  using counter_key [of n] by simp

lemma populate_failed_aux:
  "populateBenchmarkHistory dflt s c m = Some r \<Longrightarrow>
     failbit s \<and> \<not> eofbit s \<and> 6 \<le> length dflt \<and> (\<forall>v \<in> ran m. 6 \<le> length v) \<longrightarrow> False"
proof (induct rule: populateBenchmarkHistory.raw_induct [rotated, consumes 1, case_names step])
  case (step populate dflt s c m r)
  show ?case
  proof
    assume inv: "failbit s \<and> \<not> eofbit s \<and> 6 \<le> length dflt \<and> (\<forall>v \<in> ran m. 6 \<le> length v)"
    let ?key = "real (unat c) * 3600"
    let ?m = "fst (map_subscript dflt m ?key)"
    have len: "6 \<le> length (snd (map_subscript dflt m ?key))"
      using inv by (auto simp: map_subscript_def ran_def split: option.splits)
    have one: "for_each [0..<6] (storeStateData dflt ?key) (fst (extract_double s), m)
                = Inr (s, ?m)"
      using inv len by (simp add: extract_failed for_each_failed)
    have ran': "\<forall>v \<in> ran ?m. 6 \<le> length v"
      using inv by (auto simp: map_subscript_def ran_def split: option.splits if_splits)
    have "populate dflt s (c + 1) ?m = Some r"
      using step(2) inv unfolding one by simp
    then show False
      using step(1) inv ran' by blast
  qed
qed

lemma populate_failed_never_returns:
  assumes "failbit s" "\<not> eofbit s" "6 \<le> length dflt" "\<forall>v \<in> ran m. 6 \<le> length v"
  shows "populateBenchmarkHistory dflt s c m = None"
proof (cases "populateBenchmarkHistory dflt s c m")
  case (Some r)
  then show ?thesis using populate_failed_aux assms by blast
qed simp

lemma skipws_row_items [simp]: "skipws (row_items r @ rest) = row_items r @ rest"
  by (simp add: row_items_def)

lemma fresh_subscript:
  "m key = None \<Longrightarrow> map_subscript dflt m key = (m(key \<mapsto> dflt), dflt)"
  by (simp add: map_subscript_def)

lemma populate_eof: "eofbit s \<Longrightarrow> populateBenchmarkHistory dflt s c m = Some (Inr m)"
  by (subst populateBenchmarkHistory.simps) simp

lemma populate_at_end:
  assumes "\<not> eofbit s" "\<not> failbit s" "skipws (pending s) = []" "length dflt = 6"
    and "m (real (unat c) * 3600) = None"
  shows "populateBenchmarkHistory dflt s c m = Some (Inr (m(real (unat c) * 3600 \<mapsto> dflt)))"
proof -
  let ?s = "s\<lparr>pending := [], eofbit := True, failbit := True\<rparr>"
  have ex: "extract_double s = (?s, None)"
    using assms by (simp add: extract_double_def)
  have "for_each [0..<6] (storeStateData dflt (real (unat c) * 3600)) (?s, m)
        = Inr (?s, m(real (unat c) * 3600 \<mapsto> dflt))"
    using assms by (subst for_each_failed) (simp_all add: fresh_subscript)
  then show ?thesis
    using assms(1) unfolding populateBenchmarkHistory.simps [of dflt s c m] ex
    by (simp add: populate_eof)
qed

lemma populate_row:
  assumes "\<not> eofbit s" "\<not> failbit s" "skipws (pending s) = row_items r @ rest"
    and "length (snd r) = 6" "length dflt = 6" "m (real (unat c) * 3600) = None"
  shows "populateBenchmarkHistory dflt s c m
         = populateBenchmarkHistory dflt (s\<lparr>pending := rest, eofbit := (rest = [])\<rparr>) (c + 1)
             (m(real (unat c) * 3600 \<mapsto> snd r))"
proof -
  have "for_each [0..<6] (storeStateData dflt (real (unat c) * 3600)) (fst (extract_double s), m)
        = Inr (s\<lparr>pending := rest, eofbit := (rest = [])\<rparr>, m(real (unat c) * 3600 \<mapsto> snd r))"
    using assms by (intro row_step [where t = "fst r"]) (simp_all add: fresh_subscript)
  then show ?thesis
    using assms(1) unfolding populateBenchmarkHistory.simps [of dflt s c m]
    by simp
qed

lemma after_row_simps [simp]:
  "pending (after_row rest) = rest" "eofbit (after_row rest) = (rest = [])"
  "failbit (after_row rest) = False"
  "(after_row (a # its))\<lparr>pending := rest, eofbit := (rest = [])\<rparr> = after_row rest"
  by (simp_all add: after_row_def)

lemma populate_following:
  assumes "well_formed rs" "length dflt = 6"
    and "n + length rs + extra_iterations trailing \<le> 2 ^ 32"
    and "\<forall>j\<ge>n. m (key_of j) = None"
  shows "populateBenchmarkHistory dflt (after_row (following rs trailing)) (of_nat n) m
         = Some (Inr (fill dflt n rs trailing m))"
  using assms
proof (induction rs arbitrary: n m)
  case Nil
  show ?case
  proof (cases trailing)
    case True
    then have n: "n < 2 ^ 32" using Nil by (simp add: extra_iterations_def)
    have run: "populateBenchmarkHistory dflt (after_row [Space]) (of_nat n) m
          = Some (Inr (m(key_of n \<mapsto> dflt)))"
      using Nil n by (subst populate_at_end) (simp_all add: counter_key_unsigned)
    have f1: "following [] trailing = [Space]"
      using True by (simp add: following_def)
    have f2: "fill dflt n [] trailing m = m(key_of n \<mapsto> dflt)"
      using True Nil by (simp add: fresh_subscript)
    show ?thesis
      unfolding f1 f2 by (rule run)
  next
    case False
    then show ?thesis
      by (simp add: following_def populate_eof)
  qed
next
  case (Cons r rs)
  let ?rest = "following rs trailing"
  have n: "n < 2 ^ 32" using Cons.prems by simp
  have fol: "following (r # rs) trailing = Space # row_items r @ ?rest"
    by (simp add: following_def)
  have "populateBenchmarkHistory dflt (after_row (following (r # rs) trailing)) (of_nat n) m
        = populateBenchmarkHistory dflt (after_row ?rest) (of_nat n + 1) (m(key_of n \<mapsto> snd r))"
    unfolding fol using Cons.prems n
    by (subst populate_row [where r = r and rest = ?rest])
       (simp_all add: counter_key_unsigned well_formed_def)
  also have "of_nat n + (1 :: 32 word) = of_nat (Suc n)"
    by simp
  also have "populateBenchmarkHistory dflt (after_row ?rest) (of_nat (Suc n)) (m(key_of n \<mapsto> snd r))
             = Some (Inr (fill dflt (Suc n) rs trailing (m(key_of n \<mapsto> snd r))))"
    using Cons.prems by (intro Cons.IH) (auto simp: well_formed_def key_of_inj)
  finally show ?case by simp
qed

lemma populate_table:
  assumes "well_formed rows" "length dflt = 6" "length rows < 2 ^ 32"
  shows "populateBenchmarkHistory dflt (opened (benchmark_table rows trailing)) 0 Map.empty
         = Some (Inr (fill dflt 0 rows (trailing \<or> rows = []) Map.empty))"
proof (cases rows)
  case Nil
  have "populateBenchmarkHistory dflt (opened (following [] trailing)) 0 Map.empty
        = Some (Inr (Map.empty(real (unat (0 :: 32 word)) * 3600 \<mapsto> dflt)))"
    using assms by (subst populate_at_end) (simp_all add: opened_def following_def)
  then show ?thesis
    using Nil by (simp add: benchmark_table_def fresh_subscript key_of_def)
next
  case (Cons r rs)
  let ?rest = "following rs trailing"
  have "populateBenchmarkHistory dflt (opened (row_items r @ ?rest)) 0 Map.empty
        = populateBenchmarkHistory dflt (after_row ?rest) (0 + 1)
            (Map.empty(real (unat (0 :: 32 word)) * 3600 \<mapsto> snd r))"
    using assms Cons
    by (subst populate_row [where r = r and rest = ?rest])
       (simp_all add: opened_def after_row_def well_formed_def)
  also have "\<dots> = populateBenchmarkHistory dflt (after_row ?rest) (of_nat 1) (Map.empty(key_of 0 \<mapsto> snd r))"
    by (simp add: key_of_def)
  also have "\<dots> = Some (Inr (fill dflt 1 rs trailing (Map.empty(key_of 0 \<mapsto> snd r))))"
    using assms Cons
    by (intro populate_following) (auto simp: well_formed_def key_of_inj extra_iterations_def)
  finally show ?thesis
    using Cons by (simp add: benchmark_table_def)
qed

lemma subscript_other:
  "k \<noteq> key \<Longrightarrow> fst (map_subscript dflt m key) k = m k"
  by (simp add: map_subscript_def split: option.splits)

lemma dom_subscript: "dom (fst (map_subscript dflt m key)) = insert key (dom m)"
  by (auto simp: map_subscript_def split: option.splits if_splits)

lemma fill_below: "j < n \<Longrightarrow> fill dflt n rs trailing m (key_of j) = m (key_of j)"
  by (induction rs arbitrary: n m) (simp_all add: subscript_other key_of_inj)

lemma fill_row:
  "k < length rs \<Longrightarrow> fill dflt n rs trailing m (key_of (n + k)) = Some (snd (rs ! k))"
proof (induction rs arbitrary: n m k)
  case Nil
  then show ?case by simp
next
  case (Cons r rs)
  show ?case
  proof (cases k)
    case 0
    then show ?thesis by (simp add: fill_below)
  next
    case (Suc k')
    then have "fill dflt (Suc n) rs trailing (m(key_of n \<mapsto> snd r)) (key_of (Suc n + k'))
               = Some (snd (rs ! k'))"
      using Cons.prems by (intro Cons.IH) simp
    then show ?thesis using Suc by simp
  qed
qed

lemma fill_dom:
  "dom (fill dflt n rs trailing m)
   = dom m \<union> key_of ` {n ..< n + length rs + extra_iterations trailing}"
proof (induction rs arbitrary: n m)
  case Nil
  show ?case
    by (cases trailing) (simp_all add: dom_subscript extra_iterations_def)
next
  case (Cons r rs)
  have range: "{n ..< n + length (r # rs) + extra_iterations trailing}
        = insert n {Suc n ..< Suc n + length rs + extra_iterations trailing}"
    by auto
  have "dom (fill dflt n (r # rs) trailing m)
        = dom (m(key_of n \<mapsto> snd r))
          \<union> key_of ` {Suc n ..< Suc n + length rs + extra_iterations trailing}"
    by (simp only: fill.simps Cons.IH)
  also have "\<dots> = insert (key_of n) (dom m)
          \<union> key_of ` {Suc n ..< Suc n + length rs + extra_iterations trailing}"
    by (simp only: dom_fun_upd option.simps if_False)
  also have "\<dots> = dom m \<union> key_of ` {n ..< n + length (r # rs) + extra_iterations trailing}"
    unfolding range by (simp only: image_insert Un_insert_left Un_insert_right)
  finally show ?case .
qed

lemma fill_spurious:
  "trailing \<Longrightarrow> m (key_of (n + length rs)) = None \<Longrightarrow>
     fill dflt n rs trailing m (key_of (n + length rs)) = Some dflt"
proof (induction rs arbitrary: n m)
  case Nil
  then show ?case by (simp add: fresh_subscript)
next
  case (Cons r rs)
  have "fill dflt (Suc n) rs trailing (m(key_of n \<mapsto> snd r)) (key_of (Suc n + length rs))
        = Some dflt"
    using Cons.prems by (intro Cons.IH) (simp_all add: key_of_inj)
  then show ?case by simp
qed

lemma card_keys: "card (key_of ` {0 ..< n}) = n"
  by (simp add: card_image inj_on_def key_of_inj)

lemma ifstream_open_Some: "fs path = Some its \<Longrightarrow> ifstream_open fs path = opened its"
  by (simp add: ifstream_open_def opened_def)

text \<open>
  Claim C8. For a benchmark file of rows [elapsed time, x, y, z, xdot, ydot, zdot], the
  loading loop returns a history in which the state of the row with sample index \<open>k\<close>
  stands at the key \<open>k * 3600\<close>, whatever elapsed time the row gives in its first column,
  and different rows have different keys.
\<close>

theorem benchmark_rows_keyed_by_sample_index:
  assumes "well_formed rows" and "length dflt = 6" and "length rows < 2 ^ 32"
    and "fs path = Some (benchmark_table rows trailing)"
  shows "\<exists>m. populateBenchmarkHistory dflt (ifstream_open fs path) 0 Map.empty = Some (Inr m)
           \<and> (\<forall>k<length rows. m (real k * 3600) = Some (snd (rows ! k)))
           \<and> (\<forall>j<length rows. \<forall>k<length rows. real j * 3600 = real k * 3600 \<longrightarrow> j = k)"
proof -
  let ?m = "fill dflt 0 rows (trailing \<or> rows = []) Map.empty"
  have "populateBenchmarkHistory dflt (ifstream_open fs path) 0 Map.empty = Some (Inr ?m)"
    using assms by (simp add: ifstream_open_Some populate_table)
  moreover have "\<forall>k<length rows. ?m (real k * 3600) = Some (snd (rows ! k))"
    using fill_row [of _ rows dflt 0] by (simp add: key_of_def)
  ultimately show ?thesis by simp
qed

theorem benchmark_rows_keyed_by_sample_index_witness:
  "\<exists>m. populateBenchmarkHistory [0, 0, 0, 0, 0, 0]
          (ifstream_open
             [''twoBodyKeplerData.dat'' \<mapsto>
                benchmark_table [(0, [1, 2, 3, 4, 5, 6]), (3599, [7, 8, 9, 10, 11, 12])] True]
             ''twoBodyKeplerData.dat'') 0 Map.empty = Some (Inr m)
       \<and> m 0 = Some [1, 2, 3, 4, 5, 6] \<and> m 3600 = Some [7, 8, 9, 10, 11, 12]"
  using benchmark_rows_keyed_by_sample_index
    [of "[(0, [1, 2, 3, 4, 5, 6]), (3599, [7, 8, 9, 10, 11, 12])]" "[0, 0, 0, 0, 0, 0]"
        "[''twoBodyKeplerData.dat'' \<mapsto>
            benchmark_table [(0, [1, 2, 3, 4, 5, 6]), (3599, [7, 8, 9, 10, 11, 12])] True]"
        "''twoBodyKeplerData.dat''" True]
  by (auto simp add: well_formed_def All_less_Suc)

lemma populate_opened_table:
  assumes "well_formed rows" "length dflt = 6" "length rows < 2 ^ 32"
    and "fs path = Some (benchmark_table rows trailing)"
  shows "populateBenchmarkHistory dflt (ifstream_open fs path) 0 Map.empty
         = Some (Inr (fill dflt 0 rows (trailing \<or> rows = []) Map.empty))"
  using assms by (simp add: ifstream_open_Some populate_table)

lemma test_result_after_loading:
  assumes "populateBenchmarkHistory (defaultCartesianElements ext)
             (ifstream_open fs (absolutePathToBenchmarkData ext)) 0 Map.empty = Some (Inr m)"
  shows "testKeplerPropagator ext fs
         = Some (Inr (False, reportUnopened (ifstream_open fs (absolutePathToBenchmarkData ext))
                               (absolutePathToBenchmarkData ext)))"
  using assms by (simp add: testKeplerPropagator_def Let_def checkResults_zero_start)

lemma test_never_reports_error:
  "testKeplerPropagator ext fs \<noteq> Some (Inr (True, msgs))"
proof (cases "populateBenchmarkHistory (defaultCartesianElements ext)
                (ifstream_open fs (absolutePathToBenchmarkData ext)) 0 Map.empty")
  case None
  then show ?thesis by (simp add: testKeplerPropagator_def Let_def)
next
  case (Some r)
  show ?thesis
  proof (cases r)
    case (Inl f)
    with Some show ?thesis by (simp add: testKeplerPropagator_def Let_def)
  next
    case (Inr m)
    with Some show ?thesis by (simp add: test_result_after_loading)
  qed
qed

lemma test_passes_on_table:
  assumes "well_formed rows" "length (defaultCartesianElements ext) = 6" "length rows < 2 ^ 32"
    and "fs (absolutePathToBenchmarkData ext) = Some (benchmark_table rows trailing)"
  shows "testKeplerPropagator ext fs = Some (Inr (False, []))"
proof -
  have "testKeplerPropagator ext fs
        = Some (Inr (False, reportUnopened (ifstream_open fs (absolutePathToBenchmarkData ext))
                              (absolutePathToBenchmarkData ext)))"
    by (rule test_result_after_loading)
       (rule populate_opened_table [where fs = fs and path = "absolutePathToBenchmarkData ext",
          OF assms])
  then show ?thesis
    using assms(4) by (simp add: reportUnopened_def ifstream_open_def)
qed


section \<open>The comparison of the test\<close>

text \<open>
  Claim C2. With the start time \<open>0.0\<close> that the test sets, the bound \<open>start / interval\<close> of
  the comparison loop is \<open>0\<close>: the loop returns its state as it got it, without running
  its body. So the test never returns \<open>True\<close>, and for every benchmark table and every
  propagator, conversion and default object it returns \<open>False\<close> and prints nothing.
\<close>

theorem comparison_loop_skipped:
  "checkResults dfltState dfltElements tolerance 0 interval 0 st = Some (Inr st)
   \<and> testKeplerPropagator ext fs \<noteq> Some (Inr (True, msgs))
   \<and> (well_formed rows \<and> length (defaultCartesianElements ext) = 6 \<and> length rows < 2 ^ 32
        \<and> fs (absolutePathToBenchmarkData ext) = Some (benchmark_table rows trailing)
      \<longrightarrow> testKeplerPropagator ext fs = Some (Inr (False, [])))"
  using checkResults_zero_start test_never_reports_error test_passes_on_table by blast

theorem comparison_loop_skipped_witness:
  "checkResults [] [] (1 / 10 ^ 6) 0 3600 0
       \<lparr>simulation = Map.empty, benchmark = Map.empty,
        isKeplerPropagatorErroneous = False, cerr = []\<rparr>
     = Some (Inr \<lparr>simulation = Map.empty, benchmark = Map.empty,
                  isKeplerPropagatorErroneous = False, cerr = []\<rparr>)
   \<and> testKeplerPropagator stand_in
         [''/tudat/Astrodynamics/Propagators/twoBodyKeplerData.dat'' \<mapsto>
            benchmark_table [(0, [1, 2, 3, 4, 5, 6])] True]
       = Some (Inr (False, []))"
  using comparison_loop_skipped
    [of "[]" "[]" "1 / 10 ^ 6" 3600
        "\<lparr>simulation = Map.empty, benchmark = Map.empty,
          isKeplerPropagatorErroneous = False, cerr = []\<rparr>"
        stand_in
        "[''/tudat/Astrodynamics/Propagators/twoBodyKeplerData.dat'' \<mapsto>
            benchmark_table [(0, [1, 2, 3, 4, 5, 6])] True]"
        "[]" "[(0, [1, 2, 3, 4, 5, 6])]" True]
  by (simp add: well_formed_def stand_in_def absolutePathToBenchmarkData_def
      relativePathToBenchmarkData_def)

text \<open>
  Claim C9, evaluated where the benchmark file cannot be opened. The message and the path go
  to \<^verbatim>\<open>cerr\<close>, the flag is not set and there is no early return, as the claim says. But
  \<^verbatim>\<open>eof( )\<close> never becomes true on a stream that failed to open: the loading loop does not
  end, and the test reaches neither the propagation nor its \<^verbatim>\<open>return\<close>.
\<close>

theorem unopened_file_never_returns:
  assumes "fs (absolutePathToBenchmarkData ext) = None"
    and "6 \<le> length (defaultCartesianElements ext)"
  shows "reportUnopened (ifstream_open fs (absolutePathToBenchmarkData ext))
           (absolutePathToBenchmarkData ext)
         = [couldNotBeOpened, absolutePathToBenchmarkData ext]
       \<and> populateBenchmarkHistory (defaultCartesianElements ext)
           (ifstream_open fs (absolutePathToBenchmarkData ext)) 0 Map.empty = None
       \<and> testKeplerPropagator ext fs = None"
proof -
  let ?file = "ifstream_open fs (absolutePathToBenchmarkData ext)"
  have bits: "failbit ?file" "\<not> eofbit ?file"
    using assms(1) by (simp_all add: ifstream_open_def)
  have "populateBenchmarkHistory (defaultCartesianElements ext) ?file 0 Map.empty = None"
    using bits assms(2) by (intro populate_failed_never_returns) simp_all
  then show ?thesis
    using bits by (simp add: testKeplerPropagator_def Let_def reportUnopened_def)
qed

theorem unopened_file_never_returns_witness:
  "reportUnopened (ifstream_open Map.empty (absolutePathToBenchmarkData stand_in))
     (absolutePathToBenchmarkData stand_in)
     = [couldNotBeOpened, ''/tudat/Astrodynamics/Propagators/twoBodyKeplerData.dat'']
   \<and> populateBenchmarkHistory (defaultCartesianElements stand_in)
       (ifstream_open Map.empty (absolutePathToBenchmarkData stand_in)) 0 Map.empty = None
   \<and> testKeplerPropagator stand_in Map.empty = None"
  using unopened_file_never_returns [of Map.empty stand_in]
  by (simp add: stand_in_def absolutePathToBenchmarkData_def relativePathToBenchmarkData_def)


text \<open>
  Claim C1, evaluated on a benchmark file that does not match the propagation. The
  propagated sample at \<open>t = 0\<close> has \<open>x = 6750\<close> km, the benchmark row for \<open>t = 0\<close> is all
  zeros, the difference is far above the tolerance \<open>1e-6\<close>, and the test returns \<open>False\<close>.
\<close>

theorem wrong_benchmark_not_reported:
  "map_option (convertMetersToKilometers stand_in)
     (seriesPropagationHistory stand_in 0 86400 3600
        (convertKilometersToMeters stand_in [6750, 0, 0, 0, 80595973215 / 10 ^ 10, 0]) 0)
     = Some [6750, 0, 0, 0, 80595973215 / 10 ^ 10, 0]
   \<and> populateBenchmarkHistory (defaultCartesianElements stand_in)
       (ifstream_open
          [''/tudat/Astrodynamics/Propagators/twoBodyKeplerData.dat'' \<mapsto>
             benchmark_table [(0, [0, 0, 0, 0, 0, 0])] True]
          (absolutePathToBenchmarkData stand_in)) 0 Map.empty
     = Some (Inr [0 \<mapsto> [0, 0, 0, 0, 0, 0], 3600 \<mapsto> [0, 0, 0, 0, 0, 0]])
   \<and> 1 / 10 ^ 6 < \<bar>6750 - (0 :: real)\<bar>
   \<and> testKeplerPropagator stand_in
       [''/tudat/Astrodynamics/Propagators/twoBodyKeplerData.dat'' \<mapsto>
          benchmark_table [(0, [0, 0, 0, 0, 0, 0])] True]
     = Some (Inr (False, []))"
proof -
  let ?fs = "[''/tudat/Astrodynamics/Propagators/twoBodyKeplerData.dat'' \<mapsto>
               benchmark_table [(0, [0, 0, 0, 0, 0, 0])] True]"
  have path: "?fs (absolutePathToBenchmarkData stand_in)
              = Some (benchmark_table [(0, [0, 0, 0, 0, 0, 0])] True)"
    by (simp add: stand_in_def absolutePathToBenchmarkData_def relativePathToBenchmarkData_def)
  have dflt: "length (defaultCartesianElements stand_in) = 6"
    by (simp add: stand_in_def)
  have wf: "well_formed [(0, [0, 0, 0, 0, 0, 0])]"
    by (simp add: well_formed_def)
  have "populateBenchmarkHistory (defaultCartesianElements stand_in)
          (ifstream_open ?fs (absolutePathToBenchmarkData stand_in)) 0 Map.empty
        = Some (Inr (fill (defaultCartesianElements stand_in) 0 [(0, [0, 0, 0, 0, 0, 0])]
                       (True \<or> [(0 :: real, [0, 0, 0, 0, 0, 0 :: real])] = []) Map.empty))"
    using wf dflt path by (intro populate_opened_table) simp_all
  also have "fill (defaultCartesianElements stand_in) 0 [(0, [0, 0, 0, 0, 0, 0])]
                (True \<or> [(0 :: real, [0, 0, 0, 0, 0, 0 :: real])] = []) Map.empty
             = [0 \<mapsto> [0, 0, 0, 0, 0, 0], 3600 \<mapsto> [0, 0, 0, 0, 0, 0]]"
    by (simp add: key_of_def map_subscript_def stand_in_def)
  finally have loaded: "populateBenchmarkHistory (defaultCartesianElements stand_in)
          (ifstream_open ?fs (absolutePathToBenchmarkData stand_in)) 0 Map.empty
        = Some (Inr [0 \<mapsto> [0, 0, 0, 0, 0, 0], 3600 \<mapsto> [0, 0, 0, 0, 0, 0]])" .
  have "testKeplerPropagator stand_in ?fs = Some (Inr (False, []))"
    using wf dflt path by (intro test_passes_on_table) simp_all
  moreover have "map_option (convertMetersToKilometers stand_in)
     (seriesPropagationHistory stand_in 0 86400 3600
        (convertKilometersToMeters stand_in [6750, 0, 0, 0, 80595973215 / 10 ^ 10, 0]) 0)
     = Some [6750, 0, 0, 0, 80595973215 / 10 ^ 10, 0]"
    by (simp add: stand_in_def)
  ultimately show ?thesis
    using loaded by simp
qed

lemma addDifference_present:
  assumes "sim (real i * interval) = Some a" "bench (real i * interval) = Some b"
    and "i < length a" "i < length b"
  shows "addDifference dS dE interval i (d, sim, bench) = Inr (d + \<bar>a ! i - b ! i\<bar>, sim, bench)"
  using assms by (simp add: addDifference_def map_subscript_def)

text \<open>
  For comparison: when the bound of the loop is one (a start time equal to the interval), the
  body runs once and reports the same difference. The comparison as such works; it is the
  bound \<open>start / interval\<close> that keeps it from running in the test.
\<close>

lemma comparison_detects_when_run:
  assumes "\<forall>i<6. \<exists>a b. sim (real i * 3600) = Some a \<and> bench (real i * 3600) = Some b
              \<and> length a = 6 \<and> length b = 6"
    and "sim 0 = Some [6750, 0, 0, 0, 80595973215 / 10 ^ 10, 0]"
    and "bench 0 = Some [0, 0, 0, 0, 0, 0]"
  shows "\<exists>st. checkResults dS dE (1 / 10 ^ 6) 3600 3600 0
            \<lparr>simulation = sim, benchmark = bench, isKeplerPropagatorErroneous = False, cerr = []\<rparr>
          = Some (Inr st) \<and> isKeplerPropagatorErroneous st"
proof -
  have sum: "\<exists>d. for_each js (addDifference dS dE 3600) (d0, sim, bench) = Inr (d, sim, bench)
               \<and> d0 \<le> d \<and> (0 \<in> set js \<longrightarrow> d0 + 6750 \<le> d)"
    if "set js \<subseteq> {..<6}" for js d0
    using that
  proof (induction js arbitrary: d0)
    case Nil
    then show ?case by simp
  next
    case (Cons i js)
    then have i: "i < 6" by simp
    with assms(1) obtain a b where ab: "sim (real i * 3600) = Some a" "bench (real i * 3600) = Some b"
      "length a = 6" "length b = 6"
      by blast
    have step: "addDifference dS dE 3600 i (d0, sim, bench) = Inr (d0 + \<bar>a ! i - b ! i\<bar>, sim, bench)"
      using ab i by (intro addDifference_present) simp_all
    from Cons.prems have "set js \<subseteq> {..<6}" by simp
    from Cons.IH [OF this, of "d0 + \<bar>a ! i - b ! i\<bar>"]
    obtain d where d: "for_each js (addDifference dS dE 3600) (d0 + \<bar>a ! i - b ! i\<bar>, sim, bench)
                        = Inr (d, sim, bench)"
      "d0 + \<bar>a ! i - b ! i\<bar> \<le> d" "0 \<in> set js \<longrightarrow> d0 + \<bar>a ! i - b ! i\<bar> + 6750 \<le> d"
      by blast
    have "\<bar>a ! i - b ! i\<bar> = 6750" if "i = 0"
    proof -
      have "a = [6750, 0, 0, 0, 80595973215 / 10 ^ 10, 0]" "b = [0, 0, 0, 0, 0, 0]"
        using ab(1,2) assms(2,3) that by simp_all
      then show ?thesis using that by simp
    qed
    with d show ?case
      by (intro exI [of _ d]) (auto simp: step)
  qed
  have "set [0..<6] \<subseteq> {..<6}" by auto
  from sum [OF this, of 0] obtain d where
    d: "for_each [0..<6] (addDifference dS dE 3600) (0, sim, bench) = Inr (d, sim, bench)"
      "6750 \<le> d"
    by auto
  have one: "real (unat (0 :: 32 word)) < 3600 / 3600" by simp
  have two: "\<not> real (unat (0 + 1 :: 32 word)) < 3600 / 3600" by simp
  show ?thesis
    apply (subst checkResults.simps)
    apply (simp only: one if_True check_state.simps d sum.case)
    apply (subst checkResults.simps)
    apply (simp only: two if_False)
    using d(2) apply (simp add: noteDifference_def)
    done
qed

section \<open>Files with a field that does not convert\<close>

text \<open>
  The two ways in which the loading loop meets a field that does not convert. When the
  conversion reads the field and the file ends behind it (a lone sign, a number out of
  range), \<^verbatim>\<open>eofbit\<close> is set with \<^verbatim>\<open>failbit\<close>, the loop ends and the test returns
  \<open>False\<close>. When the conversion stops before the field (a letter), only \<^verbatim>\<open>failbit\<close> is
  set, and the loop does not end.
\<close>

lemma consumed_junk_at_end:
  assumes "fs (absolutePathToBenchmarkData ext) = Some (its @ [Junk True stored])"
    and "skipws its = []"
    and "6 \<le> length (defaultCartesianElements ext)"
  shows "testKeplerPropagator ext fs = Some (Inr (False, []))"
proof -
  let ?dflt = "defaultCartesianElements ext"
  let ?file = "ifstream_open fs (absolutePathToBenchmarkData ext)"
  let ?s = "?file\<lparr>pending := [], eofbit := True, failbit := True\<rparr>"
  have skip: "skipws (xs @ ys) = skipws ys" if "skipws xs = []" for xs ys
    using that by (induction xs rule: skipws.induct) simp_all
  have stream: "pending ?file = its @ [Junk True stored]" "\<not> eofbit ?file" "\<not> failbit ?file"
    using assms(1) by (simp_all add: ifstream_open_def)
  have ex: "extract_double ?file = (?s, stored)"
    using stream assms(2) by (simp add: extract_double_def skip)
  have len: "6 \<le> length (snd (map_subscript ?dflt Map.empty (real (unat (0 :: 32 word)) * 3600)))"
    using assms(3) by (simp add: map_subscript_def)
  have "for_each [0..<6] (storeStateData ?dflt (real (unat (0 :: 32 word)) * 3600)) (?s, Map.empty)
        = Inr (?s, fst (map_subscript ?dflt Map.empty (real (unat (0 :: 32 word)) * 3600)))"
    using len by (intro for_each_failed) simp_all
  then have "populateBenchmarkHistory ?dflt ?file 0 Map.empty
             = Some (Inr (fst (map_subscript ?dflt Map.empty (real (unat (0 :: 32 word)) * 3600))))"
    using stream(2) unfolding populateBenchmarkHistory.simps [of ?dflt ?file 0 Map.empty] ex
    by (simp add: populate_eof)
  from test_result_after_loading [OF this] show ?thesis
    using stream(3) by (simp add: reportUnopened_def)
qed

lemma unread_junk_never_returns:
  assumes "fs (absolutePathToBenchmarkData ext) = Some (its @ Junk False stored # rest)"
    and "skipws its = []"
    and "6 \<le> length (defaultCartesianElements ext)"
  shows "testKeplerPropagator ext fs = None"
proof -
  let ?dflt = "defaultCartesianElements ext"
  let ?file = "ifstream_open fs (absolutePathToBenchmarkData ext)"
  let ?s = "?file\<lparr>pending := Junk False stored # rest, failbit := True\<rparr>"
  let ?m = "fst (map_subscript ?dflt Map.empty (real (unat (0 :: 32 word)) * 3600))"
  have skip: "skipws (xs @ ys) = skipws ys" if "skipws xs = []" for xs ys
    using that by (induction xs rule: skipws.induct) simp_all
  have stream: "pending ?file = its @ Junk False stored # rest" "\<not> eofbit ?file" "\<not> failbit ?file"
    using assms(1) by (simp_all add: ifstream_open_def)
  have ex: "extract_double ?file = (?s, stored)"
    using stream assms(2) by (simp add: extract_double_def skip)
  have len: "6 \<le> length (snd (map_subscript ?dflt Map.empty (real (unat (0 :: 32 word)) * 3600)))"
    using assms(3) by (simp add: map_subscript_def)
  have step: "for_each [0..<6] (storeStateData ?dflt (real (unat (0 :: 32 word)) * 3600)) (?s, Map.empty)
        = Inr (?s, ?m)"
    using len by (intro for_each_failed) simp_all
  have ran: "\<forall>v \<in> ran ?m. 6 \<le> length v"
    using assms(3) by (auto simp: map_subscript_def ran_def split: if_splits)
  have "populateBenchmarkHistory ?dflt ?s (0 + 1) ?m = None"
    using stream(2) assms(3) ran by (intro populate_failed_never_returns) simp_all
  with step have "populateBenchmarkHistory ?dflt ?file 0 Map.empty = None"
    using stream(2) unfolding populateBenchmarkHistory.simps [of ?dflt ?file 0 Map.empty] ex
    by simp
  then show ?thesis
    by (simp add: testKeplerPropagator_def Let_def)
qed

section \<open>The number of keys after loading\<close>

text \<open>
  Claim C10 as stated fails on a file that ends right behind its last number: the
  extraction of that number reaches the end of the file and sets \<^verbatim>\<open>eofbit\<close>, the loop
  stops, and a file of one row gives one key, none at \<open>1 * 3600\<close>.
\<close>

theorem no_extra_entry_without_trailing_whitespace:
  "populateBenchmarkHistory [0, 0, 0, 0, 0, 0]
     (ifstream_open
        [''twoBodyKeplerData.dat'' \<mapsto> benchmark_table [(0, [1, 2, 3, 4, 5, 6])] False]
        ''twoBodyKeplerData.dat'') 0 Map.empty
     = Some (Inr [0 \<mapsto> [1, 2, 3, 4, 5, 6]])
   \<and> [0 \<mapsto> [1, 2, 3, 4, 5, 6 :: real]] (1 * 3600 :: real) = None
   \<and> card (dom [0 :: real \<mapsto> [1, 2, 3, 4, 5, 6 :: real]]) \<noteq> 1 + 1"
proof -
  let ?rows = "[(0 :: real, [1, 2, 3, 4, 5, 6 :: real])]"
  have "populateBenchmarkHistory [0, 0, 0, 0, 0, 0]
          (ifstream_open [''twoBodyKeplerData.dat'' \<mapsto> benchmark_table ?rows False]
             ''twoBodyKeplerData.dat'') 0 Map.empty
        = Some (Inr (fill [0, 0, 0, 0, 0, 0] 0 ?rows (False \<or> ?rows = []) Map.empty))"
    by (intro populate_opened_table) (simp_all add: well_formed_def)
  also have "fill [0, 0, 0, 0, 0, 0] 0 ?rows (False \<or> ?rows = []) Map.empty
             = [0 \<mapsto> [1, 2, 3, 4, 5, 6]]"
    by (simp add: key_of_def)
  finally have "populateBenchmarkHistory [0, 0, 0, 0, 0, 0]
          (ifstream_open [''twoBodyKeplerData.dat'' \<mapsto> benchmark_table ?rows False]
             ''twoBodyKeplerData.dat'') 0 Map.empty
        = Some (Inr [0 \<mapsto> [1, 2, 3, 4, 5, 6]])" .
  moreover have "[0 \<mapsto> [1, 2, 3, 4, 5, 6 :: real]] (1 * 3600 :: real) = None"
    by simp
  moreover have "card (dom [0 :: real \<mapsto> [1, 2, 3, 4, 5, 6 :: real]]) \<noteq> 1 + 1"
    by simp
  ultimately show ?thesis
    by (intro conjI)
qed

text \<open>
  Claim C10, amended. For a file of \<open>N\<close> rows in which whitespace follows the last number
  (or which holds no number at all), the loop runs once more after the last row, every
  extraction of that iteration fails, and a default-constructed entry appears at the key
  \<open>N * 3600\<close>: the history holds \<open>N + 1\<close> keys. For a file of \<open>N \<ge> 1\<close> rows that ends
  with its last number there is no such iteration: no key \<open>N * 3600\<close>, and \<open>N\<close> keys.
\<close>

theorem extra_entry_with_trailing_whitespace:
  assumes "well_formed rows" and "length dflt = 6" and "length rows < 2 ^ 32"
    and "fs path = Some (benchmark_table rows trailing)"
  shows "\<exists>m. populateBenchmarkHistory dflt (ifstream_open fs path) 0 Map.empty = Some (Inr m)
           \<and> (if trailing \<or> rows = []
               then m (real (length rows) * 3600) = Some dflt
                    \<and> card (dom m) = length rows + 1
               else m (real (length rows) * 3600) = None
                    \<and> card (dom m) = length rows)"
proof -
  let ?extra = "trailing \<or> rows = []"
  let ?m = "fill dflt 0 rows ?extra Map.empty"
  have loaded: "populateBenchmarkHistory dflt (ifstream_open fs path) 0 Map.empty
                = Some (Inr ?m)"
    using assms by (rule populate_opened_table)
  have dom: "dom ?m = key_of ` {0 ..< length rows + extra_iterations ?extra}"
    by (simp only: fill_dom dom_empty Un_empty_left add_0)
  have card: "card (dom ?m) = length rows + extra_iterations ?extra"
    unfolding dom by (rule card_keys)
  show ?thesis
  proof (cases ?extra)
    case True
    have "?m (key_of (0 + length rows)) = Some dflt"
      using True by (intro fill_spurious) simp_all
    then have "?m (real (length rows) * 3600) = Some dflt"
      by (simp add: key_of_def)
    moreover have "card (dom ?m) = length rows + 1"
      using card True by (simp add: extra_iterations_def)
    ultimately show ?thesis
      using loaded True by (intro exI [of _ ?m]) (simp only: if_True simp_thms)
  next
    case False
    have "key_of (length rows) \<notin> dom ?m"
      unfolding dom using False by (auto simp: key_of_inj extra_iterations_def)
    then have "?m (real (length rows) * 3600) = None"
      by (auto simp: key_of_def)
    moreover have "card (dom ?m) = length rows"
      using card False by (simp add: extra_iterations_def)
    ultimately show ?thesis
      using loaded False by (intro exI [of _ ?m]) (simp only: if_False simp_thms)
  qed
qed

theorem extra_entry_with_trailing_whitespace_witness:
  "\<exists>m. populateBenchmarkHistory [0, 0, 0, 0, 0, 0]
          (ifstream_open
             [''twoBodyKeplerData.dat'' \<mapsto>
                benchmark_table [(0, [1, 2, 3, 4, 5, 6]), (3600, [7, 8, 9, 10, 11, 12])] True]
             ''twoBodyKeplerData.dat'') 0 Map.empty = Some (Inr m)
       \<and> m 7200 = Some [0, 0, 0, 0, 0, 0] \<and> card (dom m) = 3"
  using extra_entry_with_trailing_whitespace
    [of "[(0, [1, 2, 3, 4, 5, 6]), (3600, [7, 8, 9, 10, 11, 12])]" "[0, 0, 0, 0, 0, 0]"
        "[''twoBodyKeplerData.dat'' \<mapsto>
            benchmark_table [(0, [1, 2, 3, 4, 5, 6]), (3600, [7, 8, 9, 10, 11, 12])] True]"
        "''twoBodyKeplerData.dat''" True]
  by (simp add: well_formed_def numeral_3_eq_3)

section \<open>The series driver and the solver\<close>

lemma sampleTicks_Inr:
  assumes "sampleTicks P run ks h = Inr h'"
  shows "dom h' = dom h \<union> tick run ` set ks
       \<and> (\<forall>t s. h' t = Some s \<longrightarrow>
             (t \<in> tick run ` set ks
                \<and> P (initialState run) (gravitationalParameter run)
                      (t - seriesPropagationStart run) = Inr s)
             \<or> (t \<notin> tick run ` set ks \<and> h t = Some s))"
  using assms
proof (induction ks arbitrary: h)
  case Nil
  then show ?case by simp
next
  case (Cons k ks)
  from Cons.prems obtain s0 where
    s0: "P (initialState run) (gravitationalParameter run)
           (tick run k - seriesPropagationStart run) = Inr s0"
    and rest: "sampleTicks P run ks (h(tick run k \<mapsto> s0)) = Inr h'"
    by (auto split: sum.splits)
  note IH = Cons.IH [OF rest]
  have "dom h' = dom h \<union> tick run ` set (k # ks)"
    using IH by auto
  moreover have "(t \<in> tick run ` set (k # ks)
                \<and> P (initialState run) (gravitationalParameter run)
                      (t - seriesPropagationStart run) = Inr s)
             \<or> (t \<notin> tick run ` set (k # ks) \<and> h t = Some s)" if "h' t = Some s" for t s
  proof -
    from IH that consider
      "t \<in> tick run ` set ks" "P (initialState run) (gravitationalParameter run)
                      (t - seriesPropagationStart run) = Inr s"
      | "t \<notin> tick run ` set ks" "(h(tick run k \<mapsto> s0)) t = Some s"
      by blast
    then show ?thesis
    proof cases
      case 1
      then show ?thesis by simp
    next
      case 2
      show ?thesis
      proof (cases "t = tick run k")
        case True
        with 2 s0 show ?thesis by simp
      next
        case False
        with 2 show ?thesis by simp
      qed
    qed
  qed
  ultimately show ?case by blast
qed

lemma valid_execute:
  "0 < fixedOutputInterval run \<Longrightarrow> seriesPropagationStart run < seriesPropagationEnd run \<Longrightarrow>
     execute P run = sampleTicks P run [0 ..< Suc (lastTick run)] Map.empty"
  by (simp add: execute_def)

lemma execute_Inr_valid:
  "execute P run = Inr h \<Longrightarrow>
     sampleTicks P run [0 ..< Suc (lastTick run)] Map.empty = Inr h"
  by (simp add: execute_def split: if_splits)

text \<open>
  Claim C3. A series with a non-positive output interval, or with an end time that is not
  greater than its start time, is rejected with \<open>InvalidConfigurationError\<close>, whatever
  the bound propagator is: no tick has failed, and the history is empty.
\<close>

theorem invalid_configuration_rejected:
  assumes "fixedOutputInterval run \<le> 0 \<or> seriesPropagationEnd run \<le> seriesPropagationStart run"
  shows "execute P run
         = Inl \<lparr>cause = InvalidConfigurationError, failedTick = None,
                partialHistory = Map.empty\<rparr>"
  using assms by (auto simp: execute_def)

theorem invalid_configuration_rejected_witness:
  "execute growth (short_run\<lparr>fixedOutputInterval := 0\<rparr>)
     = Inl \<lparr>cause = InvalidConfigurationError, failedTick = None, partialHistory = Map.empty\<rparr>
   \<and> execute degenerate (short_run\<lparr>seriesPropagationEnd := 100\<rparr>)
     = Inl \<lparr>cause = InvalidConfigurationError, failedTick = None, partialHistory = Map.empty\<rparr>"
  using invalid_configuration_rejected [of "short_run\<lparr>fixedOutputInterval := 0\<rparr>" growth]
    invalid_configuration_rejected [of "short_run\<lparr>seriesPropagationEnd := 100\<rparr>" degenerate]
  by (simp add: short_run_def)

text \<open>
  Claim C6. In a completed run the keys of the history are the ticks, and the state stored
  at each tick is what the propagator returns for the original initial state and the
  elapsed time \<open>tick - start\<close>.
\<close>

theorem samples_propagated_from_initial_state:
  assumes "execute P run = Inr h"
  shows "dom h = tick run ` {0 .. lastTick run}
       \<and> (\<forall>k \<le> lastTick run. \<exists>s. h (tick run k) = Some s
              \<and> P (initialState run) (gravitationalParameter run)
                   (tick run k - seriesPropagationStart run) = Inr s)"
proof -
  have set: "set [0 ..< Suc (lastTick run)] = {0 .. lastTick run}"
    by auto
  note run = sampleTicks_Inr [OF execute_Inr_valid [OF assms], unfolded set]
  have dom: "dom h = tick run ` {0 .. lastTick run}"
    using run by simp
  have "\<exists>s. h (tick run k) = Some s
              \<and> P (initialState run) (gravitationalParameter run)
                   (tick run k - seriesPropagationStart run) = Inr s" if "k \<le> lastTick run" for k
  proof -
    have "tick run k \<in> dom h" using dom that by auto
    then obtain s where s: "h (tick run k) = Some s" by auto
    with run that have "P (initialState run) (gravitationalParameter run)
                   (tick run k - seriesPropagationStart run) = Inr s"
      by auto
    with s show ?thesis by blast
  qed
  with dom show ?thesis by blast
qed

theorem samples_propagated_from_initial_state_witness:
  "execute growth short_run
     = Inr [100 \<mapsto> [1, 2, 3, 4, 5, 6],
            3700 \<mapsto> [3601, 7202, 10803, 14404, 18005, 21606],
            7300 \<mapsto> [7201, 14402, 21603, 28804, 36005, 43206]]
   \<and> (\<exists>s. [100 \<mapsto> [1, 2, 3, 4, 5, 6],
            3700 \<mapsto> [3601, 7202, 10803, 14404, 18005, 21606],
            7300 \<mapsto> [7201, 14402, 21603, 28804, 36005, 43206]] (tick short_run 2) = Some s
          \<and> growth (initialState short_run) (gravitationalParameter short_run)
               (tick short_run 2 - seriesPropagationStart short_run) = Inr s)"
proof -
  let ?h = "[100 \<mapsto> [1, 2, 3, 4, 5, 6],
             3700 \<mapsto> [3601, 7202, 10803, 14404, 18005, 21606],
             7300 \<mapsto> [7201, 14402, 21603, 28804, 36005, 43206 :: real]]"
  have last: "lastTick short_run = 2"
    by (simp add: lastTick_def short_run_def)
  have upt: "[0 ..< Suc 2] = [0, 1, 2]"
    by (simp add: numeral_2_eq_2 upt_conv_Cons)
  have valid: "0 < fixedOutputInterval short_run"
    "seriesPropagationStart short_run < seriesPropagationEnd short_run"
    by (simp_all add: short_run_def)
  have "sampleTicks growth short_run [0, 1, 2] Map.empty = Inr ?h"
    by (simp add: tick_def growth_def short_run_def)
  then have ex: "execute growth short_run = Inr ?h"
    unfolding valid_execute [OF valid] last upt .
  have "2 \<le> lastTick short_run"
    by (simp add: last)
  with samples_propagated_from_initial_state [OF ex]
  have "\<exists>s. ?h (tick short_run 2) = Some s
          \<and> growth (initialState short_run) (gravitationalParameter short_run)
               (tick short_run 2 - seriesPropagationStart short_run) = Inr s"
    by blast
  with ex show ?thesis by (intro conjI)
qed

lemma newtonRaphson_exceeds_cap:
  "\<forall>j \<le> cap. tol \<le> \<bar>f ((newtonStep f f' ^^ j) x)\<bar> \<Longrightarrow>
     newtonRaphson f f' tol cap x = Inl ConvergenceError"
proof (induction cap arbitrary: x)
  case 0
  then show ?case by simp
next
  case (Suc cap)
  have here: "tol \<le> \<bar>f x\<bar>"
    using Suc.prems [rule_format, of 0] by simp
  have "tol \<le> \<bar>f ((newtonStep f f' ^^ j) (newtonStep f f' x))\<bar>" if "j \<le> cap" for j
    using Suc.prems [rule_format, of "Suc j"] that by (simp add: funpow_swap1)
  then have "newtonRaphson f f' tol cap (newtonStep f f' x) = Inl ConvergenceError"
    by (intro Suc.IH) blast
  with here show ?case by simp
qed

lemma newtonRaphson_error:
  "newtonRaphson f f' tol cap x = Inl err \<Longrightarrow> err = ConvergenceError"
  by (induction cap arbitrary: x) (auto split: if_splits)

lemma newtonRaphson_within_tolerance:
  "newtonRaphson f f' tol cap x = Inr y \<Longrightarrow> \<bar>f y\<bar> < tol"
  by (induction cap arbitrary: x) (auto split: if_splits)

lemma solveKeplerEquation_error:
  "solveKeplerEquation cfg rel M e = Inl err \<Longrightarrow> err = ConvergenceError"
  by (auto simp: solveKeplerEquation_def Let_def split: if_splits dest: newtonRaphson_error)

lemma propagate_solver_failure:
  assumes "cartesianToKeplerian rel state mu = Inr el"
    and "solveKeplerEquation cfg rel (advanceMeanAnomaly cfg rel el mu t) (eccentricity el) = Inl err"
  shows "propagate cfg rel state mu t = Inl ConvergenceError"
  using assms solveKeplerEquation_error [OF assms(2)] by (simp add: propagate_def)

lemma sampleTicks_first_failure:
  assumes "sampleTicks P run ks h = Inl fl"
  shows "\<exists>xs j ys. ks = xs @ j # ys
           \<and> sampleTicks P run xs h = Inr (partialHistory fl)
           \<and> P (initialState run) (gravitationalParameter run)
                (tick run j - seriesPropagationStart run) = Inl (cause fl)
           \<and> failedTick fl = Some (tick run j)"
  using assms
proof (induction ks arbitrary: h)
  case Nil
  then show ?case by simp
next
  case (Cons i ks)
  show ?case
  proof (cases "P (initialState run) (gravitationalParameter run)
                  (tick run i - seriesPropagationStart run)")
    case (Inl e)
    have "sampleTicks P run (i # ks) h
          = Inl \<lparr>cause = e, failedTick = Some (tick run i), partialHistory = h\<rparr>"
      by (simp only: sampleTicks.simps Inl sum.case)
    with Cons.prems
    have fl: "fl = \<lparr>cause = e, failedTick = Some (tick run i), partialHistory = h\<rparr>"
      by (simp only: sum.inject)
    have "i # ks = [] @ i # ks" by simp
    moreover have "sampleTicks P run [] h = Inr (partialHistory fl)"
      by (simp add: fl)
    moreover have "P (initialState run) (gravitationalParameter run)
                     (tick run i - seriesPropagationStart run) = Inl (cause fl)"
      by (simp add: fl Inl)
    moreover have "failedTick fl = Some (tick run i)"
      by (simp add: fl)
    ultimately show ?thesis by blast
  next
    case (Inr s)
    have unfold: "sampleTicks P run (i # zs) h = sampleTicks P run zs (h(tick run i \<mapsto> s))" for zs
      by (simp only: sampleTicks.simps Inr sum.case)
    from Cons.prems have "sampleTicks P run ks (h(tick run i \<mapsto> s)) = Inl fl"
      by (simp only: unfold)
    from Cons.IH [OF this] obtain xs j ys where
      split: "ks = xs @ j # ys"
      and prefix: "sampleTicks P run xs (h(tick run i \<mapsto> s)) = Inr (partialHistory fl)"
      and rest: "P (initialState run) (gravitationalParameter run)
                   (tick run j - seriesPropagationStart run) = Inl (cause fl)"
        "failedTick fl = Some (tick run j)"
      by blast
    have "i # ks = (i # xs) @ j # ys"
      using split by simp
    moreover have "sampleTicks P run (i # xs) h = Inr (partialHistory fl)"
      using prefix by (simp only: unfold)
    ultimately show ?thesis
      using rest by blast
  qed
qed

lemma upt_prefix:
  assumes "[0 ..< n] = xs @ j # ys"
  shows "xs = [0 ..< j]"
proof -
  have "length [0 ..< n] = length (xs @ j # ys)"
    using assms by simp
  then have len: "length xs < n" by simp
  have "[0 ..< n] ! length xs = j"
    unfolding assms by simp
  then have j: "j = length xs"
    using len by simp
  have "take (length xs) [0 ..< n] = xs"
    unfolding assms by simp
  then show ?thesis
    using len j by simp
qed

lemma sampleTicks_stored:
  assumes "sampleTicks P run ks Map.empty = Inr h" and "i \<in> set ks"
  shows "\<exists>s. P (initialState run) (gravitationalParameter run)
                (tick run i - seriesPropagationStart run) = Inr s
             \<and> h (tick run i) = Some s"
proof -
  note facts = sampleTicks_Inr [OF assms(1)]
  have "tick run i \<in> dom h"
    using facts assms(2) by simp
  then obtain s where s: "h (tick run i) = Some s" by blast
  with facts have "P (initialState run) (gravitationalParameter run)
                (tick run i - seriesPropagationStart run) = Inr s"
    by fastforce
  with s show ?thesis by blast
qed

lemma execute_first_failure:
  assumes "0 < fixedOutputInterval run" and "seriesPropagationStart run < seriesPropagationEnd run"
    and "k \<le> lastTick run"
    and "P (initialState run) (gravitationalParameter run)
           (tick run k - seriesPropagationStart run) = Inl e"
  shows "\<exists>fl j. execute P run = Inl fl \<and> j \<le> k \<and> failedTick fl = Some (tick run j)
           \<and> P (initialState run) (gravitationalParameter run)
                (tick run j - seriesPropagationStart run) = Inl (cause fl)
           \<and> (\<forall>i<j. \<exists>s. P (initialState run) (gravitationalParameter run)
                            (tick run i - seriesPropagationStart run) = Inr s
                         \<and> partialHistory fl (tick run i) = Some s)"
proof (cases "sampleTicks P run [0 ..< Suc (lastTick run)] Map.empty")
  case (Inr h)
  have "k \<in> set [0 ..< Suc (lastTick run)]"
    using assms(3) by auto
  from sampleTicks_stored [OF Inr this] assms(4) show ?thesis
    by simp
next
  case (Inl fl)
  from sampleTicks_first_failure [OF Inl] obtain xs j ys where
    split: "[0 ..< Suc (lastTick run)] = xs @ j # ys"
    and prefix: "sampleTicks P run xs Map.empty = Inr (partialHistory fl)"
    and fails: "P (initialState run) (gravitationalParameter run)
                  (tick run j - seriesPropagationStart run) = Inl (cause fl)"
    and reported: "failedTick fl = Some (tick run j)"
    by blast
  have xs: "xs = [0 ..< j]"
    using split by (rule upt_prefix)
  have before: "\<exists>s. P (initialState run) (gravitationalParameter run)
                       (tick run i - seriesPropagationStart run) = Inr s
                    \<and> partialHistory fl (tick run i) = Some s" if "i < j" for i
    using that by (intro sampleTicks_stored [OF prefix]) (simp add: xs)
  have "j \<le> k"
  proof (rule ccontr)
    assume "\<not> j \<le> k"
    then have "k < j" by simp
    from before [OF this] assms(4) show False by simp
  qed
  moreover have "execute P run = Inl fl"
    unfolding valid_execute [OF assms(1,2)] by (rule Inl)
  ultimately show ?thesis
    using fails reported before by blast
qed

lemma stub_orbit_elliptical:
  "classifyOrbit (1 / 10 ^ 9) (pi / 6) = Elliptical"
proof -
  have "2 \<le> pi" "pi < 4" using pi_ge_two pi_less_4 by simp_all
  then have "\<not> \<bar>pi / 6\<bar> \<le> 1 / 10 ^ 9" "\<not> \<bar>pi / 6 - 1\<bar> \<le> 1 / 10 ^ 9" "pi / 6 < 1"
    by (simp_all add: abs_if)
  then show ?thesis
    by (simp only: classifyOrbit_def if_False if_True)
qed

lemma stub_iterates_exceed:
  "\<forall>j \<le> (1 :: nat).
      (1 / 10 ^ 12 :: real)
      \<le> \<bar>keplerFunction Elliptical (pi / 6) (pi / 2)
           ((newtonStep (keplerFunction Elliptical (pi / 6) (pi / 2))
               (keplerDerivative Elliptical (pi / 6)) ^^ j) (pi / 2))\<bar>"
proof (intro allI impI)
  fix j :: nat
  assume "j \<le> 1"
  then consider "j = 0" | "j = 1" by linarith
  then show "(1 / 10 ^ 12 :: real)
      \<le> \<bar>keplerFunction Elliptical (pi / 6) (pi / 2)
           ((newtonStep (keplerFunction Elliptical (pi / 6) (pi / 2))
               (keplerDerivative Elliptical (pi / 6)) ^^ j) (pi / 2))\<bar>"
  proof cases
    case 1
    have "keplerFunction Elliptical (pi / 6) (pi / 2) (pi / 2) = - (pi / 6)"
      by (simp add: keplerFunction_def)
    moreover have "(1 / 10 ^ 12 :: real) \<le> pi / 6"
      using pi_ge_two by simp
    ultimately show ?thesis
      using 1 by simp
  next
    case 2
    have f0: "keplerFunction Elliptical (pi / 6) (pi / 2) (pi / 2) = - (pi / 6)"
      by (simp add: keplerFunction_def)
    have d0: "keplerDerivative Elliptical (pi / 6) (pi / 2) = 1"
      by (simp add: keplerDerivative_def)
    have next_iterate: "newtonStep (keplerFunction Elliptical (pi / 6) (pi / 2))
             (keplerDerivative Elliptical (pi / 6)) (pi / 2) = pi / 2 + pi / 6"
      unfolding newtonStep_def f0 d0 by simp
    have "sin (pi / 2 + pi / 6) = sqrt 3 / 2"
      by (simp only: sin_add sin_pi_half cos_pi_half cos_30 mult_1 mult_zero_left add_0_right)
    then have f1: "keplerFunction Elliptical (pi / 6) (pi / 2) (pi / 2 + pi / 6)
                   = pi / 6 * (1 - sqrt 3 / 2)"
      unfolding keplerFunction_def OrbitType.case by (simp only:) (simp add: algebra_simps)
    have "sqrt 3 \<le> 9 / 5"
      by (rule real_le_lsqrt) (simp_all add: power2_eq_square)
    then have "1 / 10 \<le> 1 - sqrt 3 / 2" by simp
    moreover have "1 / 3 \<le> pi / 6" using pi_ge_two by simp
    ultimately have "1 / 3 * (1 / 10) \<le> pi / 6 * (1 - sqrt 3 / 2)"
      by (intro mult_mono) simp_all
    then have "(1 / 10 ^ 12 :: real) \<le> pi / 6 * (1 - sqrt 3 / 2)"
      by (rule order_trans [rotated]) simp
    then have "(1 / 10 ^ 12 :: real) \<le> \<bar>pi / 6 * (1 - sqrt 3 / 2)\<bar>"
      by (rule order_trans) (rule abs_ge_self)
    then show ?thesis
      using 2 by (simp only: funpow.simps o_apply id_apply One_nat_def next_iterate f1)
  qed
qed

text \<open>
  Claim C7. When, at some tick of a valid series, the Newton-Raphson iteration uses up its
  cap without an iterate within the tolerance, the solver fails with \<open>ConvergenceError\<close>,
  and so does the propagation step. The run of the series driver then ends with a failure,
  never with a history. The failure carries \<open>ConvergenceError\<close> and the tick that
  triggered it: at the reported tick the solver and the propagation step did fail with
  \<open>ConvergenceError\<close>, and at every tick before it the step succeeded, its state standing
  in the partial history. So the reported tick is the first one that fails.
\<close>

theorem convergence_failure_surfaced:
  assumes "0 < fixedOutputInterval run" and "seriesPropagationStart run < seriesPropagationEnd run"
    and "k \<le> lastTick run"
    and "cartesianToKeplerian rel (initialState run) (gravitationalParameter run) = Inr el"
    and "eccentricity el \<noteq> 0"
    and "classifyOrbit (classificationTolerance cfg) (eccentricity el) = ty"
    and "ty \<noteq> Parabolic"
    and "advanceMeanAnomaly cfg rel el (gravitationalParameter run)
           (tick run k - seriesPropagationStart run) = M"
    and "\<forall>j \<le> maximumIterations cfg.
           solverTolerance cfg
           \<le> \<bar>keplerFunction ty (eccentricity el) M
                ((newtonStep (keplerFunction ty (eccentricity el) M)
                    (keplerDerivative ty (eccentricity el)) ^^ j)
                   (initialGuess rel ty (eccentricity el) M))\<bar>"
  shows "solveKeplerEquation cfg rel M (eccentricity el) = Inl ConvergenceError
       \<and> propagate cfg rel (initialState run) (gravitationalParameter run)
           (tick run k - seriesPropagationStart run) = Inl ConvergenceError
       \<and> (\<exists>fl j. execute (propagate cfg rel) run = Inl fl \<and> cause fl = ConvergenceError
              \<and> j \<le> k \<and> failedTick fl = Some (tick run j)
              \<and> propagate cfg rel (initialState run) (gravitationalParameter run)
                   (tick run j - seriesPropagationStart run) = Inl ConvergenceError
              \<and> solveKeplerEquation cfg rel
                   (advanceMeanAnomaly cfg rel el (gravitationalParameter run)
                      (tick run j - seriesPropagationStart run))
                   (eccentricity el) = Inl ConvergenceError
              \<and> (\<forall>i<j. \<exists>s. propagate cfg rel (initialState run) (gravitationalParameter run)
                               (tick run i - seriesPropagationStart run) = Inr s
                            \<and> partialHistory fl (tick run i) = Some s))"
proof -
  have solver: "solveKeplerEquation cfg rel M (eccentricity el) = Inl ConvergenceError"
    using assms(5,6,7) newtonRaphson_exceeds_cap [OF assms(9)]
    by (simp add: solveKeplerEquation_def Let_def)
  have step: "propagate cfg rel (initialState run) (gravitationalParameter run)
                (tick run k - seriesPropagationStart run) = Inl ConvergenceError"
    using assms(4) solver [folded assms(8)]
    by (rule propagate_solver_failure [where el = el and err = ConvergenceError])
  from execute_first_failure [where P = "propagate cfg rel" and run = run and k = k
      and e = ConvergenceError, OF assms(1,2,3) step]
  obtain fl j where run: "execute (propagate cfg rel) run = Inl fl" "j \<le> k"
      "failedTick fl = Some (tick run j)"
    and why: "propagate cfg rel (initialState run) (gravitationalParameter run)
                (tick run j - seriesPropagationStart run) = Inl (cause fl)"
    and before: "\<forall>i<j. \<exists>s. propagate cfg rel (initialState run) (gravitationalParameter run)
                               (tick run i - seriesPropagationStart run) = Inr s
                            \<and> partialHistory fl (tick run i) = Some s"
    by blast
  have at_j: "solveKeplerEquation cfg rel
                (advanceMeanAnomaly cfg rel el (gravitationalParameter run)
                   (tick run j - seriesPropagationStart run))
                (eccentricity el) = Inl (cause fl)"
    using why assms(4) by (simp add: propagate_def split: sum.splits)
  then have cause: "cause fl = ConvergenceError"
    by (rule solveKeplerEquation_error)
  have why': "propagate cfg rel (initialState run) (gravitationalParameter run)
                (tick run j - seriesPropagationStart run) = Inl ConvergenceError"
    using why cause by simp
  have at_j': "solveKeplerEquation cfg rel
                (advanceMeanAnomaly cfg rel el (gravitationalParameter run)
                   (tick run j - seriesPropagationStart run))
                (eccentricity el) = Inl ConvergenceError"
    using at_j cause by simp
  have "\<exists>fl j. execute (propagate cfg rel) run = Inl fl \<and> cause fl = ConvergenceError
              \<and> j \<le> k \<and> failedTick fl = Some (tick run j)
              \<and> propagate cfg rel (initialState run) (gravitationalParameter run)
                   (tick run j - seriesPropagationStart run) = Inl ConvergenceError
              \<and> solveKeplerEquation cfg rel
                   (advanceMeanAnomaly cfg rel el (gravitationalParameter run)
                      (tick run j - seriesPropagationStart run))
                   (eccentricity el) = Inl ConvergenceError
              \<and> (\<forall>i<j. \<exists>s. propagate cfg rel (initialState run) (gravitationalParameter run)
                               (tick run i - seriesPropagationStart run) = Inr s
                            \<and> partialHistory fl (tick run i) = Some s)"
    using run cause why' at_j' before by (intro exI [of _ fl] exI [of _ j] conjI)
  with solver step show ?thesis
    by (intro conjI)
qed

theorem convergence_failure_surfaced_witness:
  "solveKeplerEquation stub_settings stub_relations (pi / 2) (pi / 6) = Inl ConvergenceError
   \<and> (\<exists>fl. execute (propagate stub_settings stub_relations) half_period_run = Inl fl
          \<and> cause fl = ConvergenceError \<and> failedTick fl = Some (pi / 2)
          \<and> partialHistory fl 0 = Some [0, 0, 0, 0, 0, 0])"
proof -
  let ?el = "\<lparr>semiMajorAxis = 1, eccentricity = pi / 6, inclination = 0,
              rightAscensionOfAscendingNode = 0, argumentOfPeriapsis = 0,
              trueAnomaly = 0 :: real\<rparr>"
  let ?P = "propagate stub_settings stub_relations"
  have a1: "0 < fixedOutputInterval half_period_run"
    by (simp add: half_period_run_def)
  have a2: "seriesPropagationStart half_period_run < seriesPropagationEnd half_period_run"
    by (simp add: half_period_run_def)
  have a3: "1 \<le> lastTick half_period_run"
    by (simp add: lastTick_def half_period_run_def)
  have a4: "cartesianToKeplerian stub_relations (initialState half_period_run)
              (gravitationalParameter half_period_run) = Inr ?el"
    by (simp add: stub_relations_def)
  have a5: "eccentricity ?el \<noteq> 0"
    by simp
  have a6: "classifyOrbit (classificationTolerance stub_settings) (eccentricity ?el) = Elliptical"
    using stub_orbit_elliptical by (simp add: stub_settings_def)
  have a7: "Elliptical \<noteq> Parabolic"
    by simp
  have anomaly: "advanceMeanAnomaly stub_settings stub_relations ?el
                   (gravitationalParameter half_period_run) t = t" for t
    using a6 by (simp add: advanceMeanAnomaly_def meanMotion_def stub_relations_def
        half_period_run_def)
  have elapsed: "tick half_period_run 0 - seriesPropagationStart half_period_run = 0"
    "tick half_period_run 1 - seriesPropagationStart half_period_run = pi / 2"
    by (simp_all add: tick_def half_period_run_def)
  have ticks: "tick half_period_run 0 = 0" "tick half_period_run 1 = pi / 2"
    by (simp_all add: tick_def half_period_run_def)
  have a8: "advanceMeanAnomaly stub_settings stub_relations ?el
              (gravitationalParameter half_period_run)
              (tick half_period_run 1 - seriesPropagationStart half_period_run) = pi / 2"
    by (simp only: anomaly elapsed)
  have a9: "\<forall>j \<le> maximumIterations stub_settings.
              solverTolerance stub_settings
              \<le> \<bar>keplerFunction Elliptical (eccentricity ?el) (pi / 2)
                   ((newtonStep (keplerFunction Elliptical (eccentricity ?el) (pi / 2))
                       (keplerDerivative Elliptical (eccentricity ?el)) ^^ j)
                      (initialGuess stub_relations Elliptical (eccentricity ?el) (pi / 2)))\<bar>"
    using stub_iterates_exceed by (simp add: stub_settings_def initialGuess_def)
  note surfaced = convergence_failure_surfaced [OF a1 a2 a3 a4 a5 a6 a7 a8 a9]
  from surfaced obtain fl j where
    run: "execute ?P half_period_run = Inl fl" "cause fl = ConvergenceError" "j \<le> 1"
      "failedTick fl = Some (tick half_period_run j)"
    and fails: "?P (initialState half_period_run) (gravitationalParameter half_period_run)
                  (tick half_period_run j - seriesPropagationStart half_period_run)
                = Inl ConvergenceError"
    and before: "\<forall>i<j. \<exists>s. ?P (initialState half_period_run)
                               (gravitationalParameter half_period_run)
                               (tick half_period_run i - seriesPropagationStart half_period_run)
                             = Inr s
                           \<and> partialHistory fl (tick half_period_run i) = Some s"
    by blast
  have solved: "solveKeplerEquation stub_settings stub_relations 0 (pi / 6) = Inr 0"
    using a6 by (simp add: solveKeplerEquation_def Let_def stub_settings_def keplerFunction_def
        initialGuess_def)
  have first: "?P (initialState half_period_run) (gravitationalParameter half_period_run)
                 (tick half_period_run 0 - seriesPropagationStart half_period_run)
               = Inr [0, 0, 0, 0, 0, 0]"
    unfolding propagate_def a4 elapsed
    by (simp add: anomaly solved) (simp add: stub_relations_def)
  have "j \<noteq> 0"
  proof
    assume "j = 0"
    with fails first show False by simp
  qed
  with run(3) have j: "j = 1" by simp
  from before j have "\<exists>s. ?P (initialState half_period_run)
                               (gravitationalParameter half_period_run)
                               (tick half_period_run 0 - seriesPropagationStart half_period_run)
                             = Inr s
                           \<and> partialHistory fl (tick half_period_run 0) = Some s"
    by simp
  then obtain s where "Inr [0, 0, 0, 0, 0, 0] = Inr s"
      "partialHistory fl (tick half_period_run 0) = Some s"
    unfolding first by blast
  then have partial: "partialHistory fl 0 = Some [0, 0, 0, 0, 0, 0]"
    unfolding ticks by simp
  have reported: "failedTick fl = Some (pi / 2)"
    using run(4) j ticks by simp
  have "solveKeplerEquation stub_settings stub_relations (pi / 2) (pi / 6)
        = Inl ConvergenceError"
    using surfaced by simp
  with run(1,2) reported partial show ?thesis
    by (intro conjI exI [of _ fl])
qed

end
